theory Spec2Isabelle
  imports Main
begin

section \<open>The module loader of edon\<close>

text \<open>
  A shallow embedding of the Go package \<^verbatim>\<open>internal/modules/loader\<close>: the module loader
  (\<^verbatim>\<open>ModuleLoader.LoadModule\<close> and its four resolvers) and the NPM package manager
  (\<^verbatim>\<open>NPMPackageManager.InstallPackage\<close>).

  Go's \<^verbatim>\<open>(value, error)\<close> results become values: a resolver returns the pair of a
  module pointer (\<open>None\<close> is \<^verbatim>\<open>nil\<close>) and an error (\<open>None\<close> is \<^verbatim>\<open>nil\<close>), since the
  cache stores the pointer as it is; the other fallible functions return a sum, \<open>Inl\<close>
  the error. The file system and the log of the effects performed are threaded through
  every function as a \<open>world\<close>; what the operating system, the network and the parts of
  the repository outside these two files answer is read from an \<open>env\<close>.
\<close>

subsection \<open>Errors\<close>

text \<open>
  Modelled from the spec: the package \<^verbatim>\<open>internal/errors\<close> is not among the sources. Its
  sentinel errors are the kinds the two files name (the spec's taxonomy, section 7), and
  \<^verbatim>\<open>errors.Wrap(kind, cause)\<close> yields an error of exactly that kind with the cause kept as
  context.
\<close>

datatype ErrKind =
    ErrInvalidSpecifier
  | ErrUnsupportedModule
  | ErrModuleNotFound
  | ErrFileRead
  | ErrPackageNotFound
  | ErrPackageFetch
  | ErrPackageInstall
  | ErrCacheDir
  | ErrJSRNotImplemented

datatype error = Sentinel ErrKind | Wrap error string

fun kind_of :: "error \<Rightarrow> ErrKind" where
  "kind_of (Sentinel k) = k"
| "kind_of (Wrap e msg) = kind_of e"

subsection \<open>Data\<close>

text \<open>
  Modelled from the spec: the declaration of \<^verbatim>\<open>PackageType\<close> and of the result of
  \<^verbatim>\<open>ValidateURL\<close> is not among the sources. The scheme is one of Local, CDN, NPM, JSR or
  Unknown (spec, section 3); \<open>TypeUnknown\<close> stands for every value the \<^verbatim>\<open>switch\<close> of
  \<^verbatim>\<open>LoadModule\<close> sends to its \<^verbatim>\<open>default\<close> branch.
\<close>

datatype PackageType = TypeLocal | TypeCDN | TypeNPM | TypeJSR | TypeUnknown

record ValidationResult =
  IsValid :: bool
  PackageType :: PackageType
  Error :: "error option"

record Module =
  URL :: string
  Content :: string
  Type :: PackageType

text \<open>\<^verbatim>\<open>ModuleCache.modules\<close>, a \<^verbatim>\<open>map[string]*Module\<close>: a key is absent, or bound to a pointer.\<close>

type_synonym ModuleCache = "string \<rightharpoonup> Module option"

record NPMPackageManager =
  cacheDir :: string

subsection \<open>The world outside the loader\<close>

datatype node = File string | Dir

text \<open>
  The effects a call performs, in order. \<open>EvResolve\<close> is a ghost event: it records that a
  scheme resolver was entered, and nothing reads it.
\<close>

datatype event =
    EvResolve PackageType string
  | EvHttpGet string
  | EvMkdirAll string
  | EvWriteFile string
  | EvReadFile string

record world =
  fs :: "string \<rightharpoonup> node"
  log :: "event list"

text \<open>The outcome of an HTTP GET: a transport failure, or a status code with the outcome of
  reading the body (\<open>Inl\<close> a read error).\<close>

datatype http_result = TransportError string | Response int "string + string"

text \<open>
  What the loader asks of its surroundings. \<open>ValidateURL\<close> is the repository's validator,
  which is not among the sources; the other fields are the answers of the Go standard
  library: \<^verbatim>\<open>os.UserHomeDir\<close>, \<^verbatim>\<open>filepath.Abs\<close>, \<^verbatim>\<open>filepath.Join\<close>,
  \<^verbatim>\<open>http.NewRequestWithContext\<close> (its error, if any), the HTTP exchange (cancellation and
  the timeout of the client are transport failures), the errors of \<^verbatim>\<open>os.MkdirAll\<close>,
  \<^verbatim>\<open>os.WriteFile\<close> and \<^verbatim>\<open>os.ReadFile\<close>, and \<^verbatim>\<open>err.Error()\<close>.
\<close>

record env =
  ValidateURL :: "string \<Rightarrow> ValidationResult"
  UserHomeDir :: "string + string"
  Abs :: "string \<Rightarrow> string + string"
  Join :: "string list \<Rightarrow> string"
  request_error :: "string \<Rightarrow> string option"
  http_do :: "string \<Rightarrow> http_result"
  mkdir_error :: "string \<Rightarrow> string option"
  write_error :: "string \<Rightarrow> string option"
  read_error :: "string \<Rightarrow> string"
  error_text :: "error \<Rightarrow> string"

definition record_event :: "event \<Rightarrow> world \<Rightarrow> world" where
  "record_event ev w = w\<lparr>log := log w @ [ev]\<rparr>"

definition Stat :: "world \<Rightarrow> string \<Rightarrow> bool" where
  "Stat w p = (case fs w p of None \<Rightarrow> False | Some n \<Rightarrow> True)"

definition ReadFile :: "env \<Rightarrow> world \<Rightarrow> string \<Rightarrow> (string + string) \<times> world" where
  "ReadFile e w p =
     (case fs w p of
        Some (File c) \<Rightarrow> (Inr c, record_event (EvReadFile p) w)
      | Some Dir \<Rightarrow> (Inl (read_error e p), record_event (EvReadFile p) w)
      | None \<Rightarrow> (Inl (read_error e p), record_event (EvReadFile p) w))"

text \<open>
  \<^verbatim>\<open>os.MkdirAll\<close> makes the directory and every parent that is missing. The parents of a
  path, nearest last, and the path itself: the text before each separator, the root left
  out, as the recursion of \<^verbatim>\<open>os.MkdirAll\<close> finds them in a path that \<^verbatim>\<open>filepath.Join\<close>
  has cleaned.
\<close>

fun prefixes_from :: "string \<Rightarrow> string \<Rightarrow> string list" where
  "prefixes_from acc [] = [rev acc]"
| "prefixes_from acc (c # cs) =
     (if c = CHR ''/'' \<and> acc \<noteq> [] then rev acc # prefixes_from (c # acc) cs
      else prefixes_from (c # acc) cs)"

definition dir_chain :: "string \<Rightarrow> string list" where
  "dir_chain p = prefixes_from [] p"

text \<open>
  From the top down: a directory that exists is passed, a regular file in the way is an
  error, a missing directory is made unless \<^verbatim>\<open>os.Mkdir\<close> fails there; what was made before
  a failure stays. \<open>None\<close> is success.
\<close>

fun mkdir_chain ::
  "env \<Rightarrow> string list \<Rightarrow> (string \<rightharpoonup> node) \<Rightarrow> string option \<times> (string \<rightharpoonup> node)" where
  "mkdir_chain e [] f = (None, f)"
| "mkdir_chain e (q # qs) f =
     (case f q of
        Some (File c) \<Rightarrow> (Some ''not a directory'', f)
      | Some Dir \<Rightarrow> mkdir_chain e qs f
      | None \<Rightarrow>
          (case mkdir_error e q of
             Some msg \<Rightarrow> (Some msg, f)
           | None \<Rightarrow> mkdir_chain e qs (f(q \<mapsto> Dir))))"

definition MkdirAll :: "env \<Rightarrow> world \<Rightarrow> string \<Rightarrow> string option \<times> world" where
  "MkdirAll e w p =
     (case mkdir_chain e (dir_chain p) (fs w) of
        (r, f) \<Rightarrow> (r, record_event (EvMkdirAll p) (w\<lparr>fs := f\<rparr>)))"

definition WriteFile :: "env \<Rightarrow> world \<Rightarrow> string \<Rightarrow> string \<Rightarrow> string option \<times> world" where
  "WriteFile e w p content =
     (case write_error e p of
        Some msg \<Rightarrow> (Some msg, record_event (EvWriteFile p) w)
      | None \<Rightarrow> (None, record_event (EvWriteFile p) (w\<lparr>fs := (fs w)(p \<mapsto> File content)\<rparr>)))"

definition HttpGet :: "env \<Rightarrow> world \<Rightarrow> string \<Rightarrow> http_result \<times> world" where
  "HttpGet e w url = (http_do e url, record_event (EvHttpGet url) w)"

subsection \<open>Strings\<close>

text \<open>\<^verbatim>\<open>strings.TrimPrefix\<close>.\<close>

definition TrimPrefix :: "string \<Rightarrow> string \<Rightarrow> string" where
  "TrimPrefix s pre = (if take (length pre) s = pre then drop (length pre) s else s)"

text \<open>\<^verbatim>\<open>strings.Split\<close> with a separator of one byte: the pieces between the separators,
  one more than there are separators. The accumulator holds the current piece, reversed.\<close>

fun split_from :: "char \<Rightarrow> string \<Rightarrow> string \<Rightarrow> string list" where
  "split_from sep acc [] = [rev acc]"
| "split_from sep acc (c # cs) =
     (if c = sep then rev acc # split_from sep [] cs else split_from sep (c # acc) cs)"

definition Split :: "string \<Rightarrow> char \<Rightarrow> string list" where
  "Split s sep = split_from sep [] s"

subsection \<open>The NPM package manager (npm.go)\<close>

definition NewNPMPackageManager :: "env \<Rightarrow> world \<Rightarrow> (error + NPMPackageManager) \<times> world" where
  "NewNPMPackageManager e w =
     (case UserHomeDir e of
        Inl msg \<Rightarrow> (Inl (Wrap (Sentinel ErrCacheDir) msg), w)
      | Inr homeDir \<Rightarrow>
          (let dir = Join e [homeDir, ''.edon'', ''npm-cache''] in
           case MkdirAll e w dir of
             (Some msg, w1) \<Rightarrow> (Inl (Wrap (Sentinel ErrCacheDir) msg), w1)
           | (None, w1) \<Rightarrow> (Inr \<lparr>cacheDir = dir\<rparr>, w1)))"

text \<open>Lines 39 to 44 of \<^verbatim>\<open>InstallPackage\<close>: the name and the version of a package reference.
  \<^verbatim>\<open>strings.Split\<close> never returns an empty slice, so \<^verbatim>\<open>parts[0]\<close> is in range.\<close>

definition name_version :: "string \<Rightarrow> string \<times> string" where
  "name_version packageName =
     (let parts = Split packageName (CHR ''@'');
          name = parts ! 0;
          version = (if length parts > 1 then parts ! 1 else ''latest'')
      in (name, version))"

text \<open>Line 47 and line 53: the cache path and the registry URL of a name and a version.\<close>

definition cachePath_of :: "env \<Rightarrow> NPMPackageManager \<Rightarrow> string \<Rightarrow> string \<Rightarrow> string" where
  "cachePath_of e pm name version = Join e [cacheDir pm, name, version]"

definition registryURL_of :: "string \<Rightarrow> string \<Rightarrow> string" where
  "registryURL_of name version = ''https://registry.npmjs.org/'' @ name @ ''/'' @ version"

definition InstallPackage ::
  "env \<Rightarrow> NPMPackageManager \<Rightarrow> world \<Rightarrow> string \<Rightarrow> (error + string) \<times> world" where
  "InstallPackage e pm w packageName =
     (case name_version packageName of (name, version) \<Rightarrow>
      let cachePath = cachePath_of e pm name version in
      if Stat w cachePath then (Inr cachePath, w)
      else
        (case HttpGet e w (registryURL_of name version) of
           (TransportError msg, w1) \<Rightarrow> (Inl (Wrap (Sentinel ErrPackageFetch) msg), w1)
         | (Response status body, w1) \<Rightarrow>
             if status \<noteq> 200 then (Inl (Sentinel ErrPackageNotFound), w1)
             else
               (case MkdirAll e w1 cachePath of
                  (Some msg, w2) \<Rightarrow> (Inl (Wrap (Sentinel ErrCacheDir) msg), w2)
                | (None, w2) \<Rightarrow>
                    (case WriteFile e w2 (Join e [cachePath, ''index.js''])
                            ''// TODO: Implement package content'' of
                       (Some msg, w3) \<Rightarrow> (Inl (Wrap (Sentinel ErrPackageInstall) msg), w3)
                     | (None, w3) \<Rightarrow> (Inr cachePath, w3)))))"

subsection \<open>The resolvers\<close>

type_synonym load_result = "(Module option \<times> error option) \<times> world"

definition loadLocalModule :: "env \<Rightarrow> world \<Rightarrow> string \<Rightarrow> load_result" where
  "loadLocalModule e w0 path =
     (let w = record_event (EvResolve TypeLocal path) w0 in
      case Abs e path of
        Inl msg \<Rightarrow> ((None, Some (Wrap (Sentinel ErrModuleNotFound) msg)), w)
      | Inr absPath \<Rightarrow>
          (case ReadFile e w absPath of
             (Inl msg, w1) \<Rightarrow> ((None, Some (Wrap (Sentinel ErrFileRead) msg)), w1)
           | (Inr content, w1) \<Rightarrow>
               ((Some \<lparr>URL = path, Content = content, Type = TypeLocal\<rparr>, None), w1)))"

text \<open>The status code of the response is never read.\<close>

definition loadCDNModule :: "env \<Rightarrow> world \<Rightarrow> string \<Rightarrow> load_result" where
  "loadCDNModule e w0 url =
     (let w = record_event (EvResolve TypeCDN url) w0 in
      case request_error e url of
        Some msg \<Rightarrow> ((None, Some (Wrap (Sentinel ErrModuleNotFound) msg)), w)
      | None \<Rightarrow>
          (case HttpGet e w url of
             (TransportError msg, w1) \<Rightarrow> ((None, Some (Wrap (Sentinel ErrModuleNotFound) msg)), w1)
           | (Response status body, w1) \<Rightarrow>
               (case body of
                  Inl msg \<Rightarrow> ((None, Some (Wrap (Sentinel ErrFileRead) msg)), w1)
                | Inr content \<Rightarrow>
                    ((Some \<lparr>URL = url, Content = content, Type = TypeCDN\<rparr>, None), w1))))"

definition loadNPMModule :: "env \<Rightarrow> world \<Rightarrow> string \<Rightarrow> load_result" where
  "loadNPMModule e w0 url =
     (let w = record_event (EvResolve TypeNPM url) w0;
          packageName = TrimPrefix url ''npm:'' in
      case NewNPMPackageManager e w of
        (Inl err, w1) \<Rightarrow> ((None, Some (Wrap (Sentinel ErrPackageInstall) (error_text e err))), w1)
      | (Inr pm, w1) \<Rightarrow>
          (case InstallPackage e pm w1 packageName of
             (Inl err, w2) \<Rightarrow>
               ((None, Some (Wrap (Sentinel ErrPackageInstall) (error_text e err))), w2)
           | (Inr packagePath, w2) \<Rightarrow>
               (case ReadFile e w2 (Join e [packagePath, ''index.js'']) of
                  (Inl msg, w3) \<Rightarrow> ((None, Some (Wrap (Sentinel ErrFileRead) msg)), w3)
                | (Inr content, w3) \<Rightarrow>
                    ((Some \<lparr>URL = url, Content = content, Type = TypeNPM\<rparr>, None), w3))))"

definition loadJSRModule :: "env \<Rightarrow> world \<Rightarrow> string \<Rightarrow> load_result" where
  "loadJSRModule e w0 url =
     ((None, Some (Sentinel ErrJSRNotImplemented)), record_event (EvResolve TypeJSR url) w0)"

subsection \<open>The loader\<close>

definition NewModuleLoader :: ModuleCache where
  "NewModuleLoader = Map.empty"

text \<open>A missing key reads as the zero value of the map, the \<^verbatim>\<open>nil\<close> pointer.\<close>

definition getFromCache :: "ModuleCache \<Rightarrow> string \<Rightarrow> Module option" where
  "getFromCache c url = (case c url of None \<Rightarrow> None | Some p \<Rightarrow> p)"

text \<open>The \<^verbatim>\<open>switch\<close> of \<^verbatim>\<open>LoadModule\<close>; \<open>None\<close> is its \<^verbatim>\<open>default\<close> branch.\<close>

fun dispatch :: "env \<Rightarrow> world \<Rightarrow> PackageType \<Rightarrow> string \<Rightarrow> load_result option" where
  "dispatch e w TypeLocal urlStr = Some (loadLocalModule e w urlStr)"
| "dispatch e w TypeCDN urlStr = Some (loadCDNModule e w urlStr)"
| "dispatch e w TypeNPM urlStr = Some (loadNPMModule e w urlStr)"
| "dispatch e w TypeJSR urlStr = Some (loadJSRModule e w urlStr)"
| "dispatch e w TypeUnknown urlStr = None"

definition LoadModule ::
  "env \<Rightarrow> ModuleCache \<Rightarrow> world \<Rightarrow> string \<Rightarrow> (Module option \<times> error option) \<times> ModuleCache \<times> world" where
  "LoadModule e c w urlStr =
     (let validation = ValidateURL e urlStr in
      if \<not> IsValid validation then ((None, Error validation), c, w)
      else
        (case getFromCache c urlStr of
           Some m \<Rightarrow> ((Some m, None), c, w)
         | None \<Rightarrow>
             (case dispatch e w (PackageType validation) urlStr of
                None \<Rightarrow> ((None, Some (Sentinel ErrUnsupportedModule)), c, w)
              | Some ((module, err), w1) \<Rightarrow>
                  (case err of
                     Some x \<Rightarrow> ((None, err), c, w1)
                   | None \<Rightarrow> ((module, None), c(urlStr \<mapsto> module), w1)))))"

subsection \<open>Two loads of one specifier, interleaved\<close>








text \<open>How many times a resolver was entered.\<close>

definition is_resolve :: "event \<Rightarrow> bool" where
  "is_resolve ev = (case ev of EvResolve t u \<Rightarrow> True | _ \<Rightarrow> False)"

definition is_http :: "event \<Rightarrow> bool" where
  "is_http ev = (case ev of EvHttpGet u \<Rightarrow> True | _ \<Rightarrow> False)"

definition resolver_calls :: "world \<Rightarrow> nat" where
  "resolver_calls w = length (filter is_resolve (log w))"

definition registry_requests :: "world \<Rightarrow> nat" where
  "registry_requests w = length (filter is_http (log w))"

subsection \<open>The invariant of the content cache\<close>

text \<open>
  Every key is bound to a pointer that is not \<^verbatim>\<open>nil\<close>, to a module that carries the key
  as its URL and the scheme the validator gives the key, which is the scheme of one of the
  three resolvers that can succeed.
\<close>

definition cache_inv :: "env \<Rightarrow> ModuleCache \<Rightarrow> bool" where
  "cache_inv e c =
     (\<forall>k p. c k = Some p \<longrightarrow>
        (\<exists>m. p = Some m \<and> URL m = k \<and> IsValid (ValidateURL e k) \<and>
             Type m = PackageType (ValidateURL e k) \<and>
             (Type m = TypeLocal \<or> Type m = TypeCDN \<or> Type m = TypeNPM)))"

subsection \<open>A concrete environment\<close>

text \<open>\<^verbatim>\<open>strings.HasPrefix\<close>.\<close>

definition HasPrefix :: "string \<Rightarrow> string \<Rightarrow> bool" where
  "HasPrefix s pre = (take (length pre) s = pre)"

text \<open>
  Modelled from the spec: \<^verbatim>\<open>ValidateURL\<close> is not among the sources. The classifier of
  section 4.1, its rules in priority order: \<^verbatim>\<open>npm:\<close> is NPM, \<^verbatim>\<open>jsr:\<close> is JSR,
  \<^verbatim>\<open>http://\<close> and \<^verbatim>\<open>https://\<close> are CDN, anything else is a local path; the one
  specifier it rejects is an empty package name after \<^verbatim>\<open>npm:\<close>.
\<close>

definition classify :: "string \<Rightarrow> ValidationResult" where
  "classify s =
     (if HasPrefix s ''npm:'' then
        (if TrimPrefix s ''npm:'' = [] then
           \<lparr>IsValid = False, PackageType = TypeNPM, Error = Some (Sentinel ErrInvalidSpecifier)\<rparr>
         else \<lparr>IsValid = True, PackageType = TypeNPM, Error = None\<rparr>)
      else if HasPrefix s ''jsr:'' then \<lparr>IsValid = True, PackageType = TypeJSR, Error = None\<rparr>
      else if HasPrefix s ''http://'' \<or> HasPrefix s ''https://'' then
        \<lparr>IsValid = True, PackageType = TypeCDN, Error = None\<rparr>
      else \<lparr>IsValid = True, PackageType = TypeLocal, Error = None\<rparr>)"

text \<open>
  \<^verbatim>\<open>filepath.Clean\<close> and \<^verbatim>\<open>filepath.Join\<close> on Unix paths. Cleaning drops empty elements and
  \<^verbatim>\<open>.\<close>, lets \<^verbatim>\<open>..\<close> remove the element before it, drops \<^verbatim>\<open>..\<close> at the root, and turns the
  empty result into \<^verbatim>\<open>.\<close>; joining ignores empty elements, puts a slash between the others
  and cleans the result.
\<close>

fun clean_parts :: "bool \<Rightarrow> string list \<Rightarrow> string list \<Rightarrow> string list" where
  "clean_parts rooted st [] = rev st"
| "clean_parts rooted st (x # xs) =
     (if x = [] \<or> x = ''.'' then clean_parts rooted st xs
      else if x = ''..'' then
        (case st of
           [] \<Rightarrow> if rooted then clean_parts rooted [] xs else clean_parts rooted [x] xs
         | y # ys \<Rightarrow>
             if y = ''..'' then clean_parts rooted (x # st) xs else clean_parts rooted ys xs)
      else clean_parts rooted (x # st) xs)"

fun with_slashes :: "string list \<Rightarrow> string" where
  "with_slashes [] = []"
| "with_slashes [x] = x"
| "with_slashes (x # y # ys) = x @ ''/'' @ with_slashes (y # ys)"

definition Clean :: "string \<Rightarrow> string" where
  "Clean p =
     (let rooted = HasPrefix p ''/'';
          body = with_slashes (clean_parts rooted [] (Split p (CHR ''/'')))
      in if rooted then ''/'' @ body else if body = [] then ''.'' else body)"

definition join_paths :: "string list \<Rightarrow> string" where
  "join_paths elems =
     (let filled = filter (\<lambda>x. x \<noteq> []) elems
      in if filled = [] then [] else Clean (with_slashes filled))"

text \<open>\<^verbatim>\<open>filepath.Abs\<close> in the working directory \<^verbatim>\<open>/work\<close>.\<close>

definition abs_path :: "string \<Rightarrow> string" where
  "abs_path p = (if HasPrefix p ''/'' then Clean p else join_paths [''/work'', p])"

fun kind_text :: "ErrKind \<Rightarrow> string" where
  "kind_text ErrInvalidSpecifier = ''invalid specifier''"
| "kind_text ErrUnsupportedModule = ''unsupported module type''"
| "kind_text ErrModuleNotFound = ''module not found''"
| "kind_text ErrFileRead = ''failed to read file''"
| "kind_text ErrPackageNotFound = ''package not found''"
| "kind_text ErrPackageFetch = ''failed to fetch package''"
| "kind_text ErrPackageInstall = ''failed to install package''"
| "kind_text ErrCacheDir = ''failed to create cache directory''"
| "kind_text ErrJSRNotImplemented = ''JSR modules not implemented''"

fun example_error_text :: "error \<Rightarrow> string" where
  "example_error_text (Sentinel k) = kind_text k"
| "example_error_text (Wrap err msg) = msg @ '': '' @ example_error_text err"

text \<open>A registry that knows \<^verbatim>\<open>left-pad\<close> 1.3.0, a CDN that serves one module, and the
  answer 404 for every other URL.\<close>

definition example_http :: "string \<Rightarrow> http_result" where
  "example_http url =
     (if url = ''https://registry.npmjs.org/left-pad/1.3.0'' then Response 200 (Inr ''{}'')
      else if url = ''https://cdn.example.com/mod.js'' then Response 200 (Inr ''export default 1'')
      else Response 404 (Inr ''Not Found''))"

definition example_env :: env where
  "example_env =
     \<lparr>ValidateURL = classify,
      UserHomeDir = Inr ''/home/u'',
      Abs = (\<lambda>p. Inr (abs_path p)),
      Join = join_paths,
      request_error = (\<lambda>url. None),
      http_do = example_http,
      mkdir_error = (\<lambda>p. None),
      write_error = (\<lambda>p. None),
      read_error = (\<lambda>p. ''open '' @ p @ '': no such file or directory''),
      error_text = example_error_text\<rparr>"

definition example_world :: world where
  "example_world = \<lparr>fs = [''/work/foo.js'' \<mapsto> File ''export const x = 1''], log = []\<rparr>"

section \<open>Properties\<close>

subsection \<open>Splitting\<close>

lemma split_from_nonempty: "split_from sep acc s \<noteq> []"
  by (induction s arbitrary: acc) auto

lemma Split_nonempty: "Split s sep \<noteq> []"
  by (simp add: Split_def split_from_nonempty)

lemma split_from_no_sep: "sep \<notin> set s \<Longrightarrow> split_from sep acc s = [rev acc @ s]"
  by (induction s arbitrary: acc) auto

lemma split_from_append:
  "sep \<notin> set n \<Longrightarrow> split_from sep acc (n @ sep # r) = (rev acc @ n) # split_from sep [] r"
  by (induction n arbitrary: acc) auto

lemma name_version_no_at:
  "CHR ''@'' \<notin> set n \<Longrightarrow> name_version n = (n, ''latest'')"
  by (simp add: name_version_def Split_def split_from_no_sep)

lemma name_version_at:
  "CHR ''@'' \<notin> set n \<Longrightarrow> name_version (n @ CHR ''@'' # r) = (n, takeWhile (\<lambda>c. c \<noteq> CHR ''@'') r)"
proof -
  assume n: "CHR ''@'' \<notin> set n"
  have hd_split: "split_from (CHR ''@'') acc r ! 0 = rev acc @ takeWhile (\<lambda>c. c \<noteq> CHR ''@'') r" for acc
    by (induction r arbitrary: acc) auto
  show ?thesis
    using n split_from_nonempty [of "CHR ''@''" "[]" r] hd_split [of "[]"]
    by (simp add: name_version_def Split_def split_from_append)
qed

subsection \<open>Making directories\<close>

lemma prefixes_from_last: "rev acc @ cs \<in> set (prefixes_from acc cs)"
proof (induction cs arbitrary: acc)
  case Nil
  then show ?case by simp
next
  case (Cons c cs)
  have "rev (c # acc) @ cs \<in> set (prefixes_from (c # acc) cs)" by (rule Cons.IH)
  then show ?case by auto
qed

lemma dir_chain_self: "p \<in> set (dir_chain p)"
  using prefixes_from_last [of "[]" p] by (simp add: dir_chain_def)

lemma mkdir_chain_keeps:
  "mkdir_chain e qs f = (r, f1) \<Longrightarrow> f q = Some n \<Longrightarrow> f1 q = Some n"
proof (induction qs arbitrary: f)
  case Nil
  then show ?case by simp
next
  case (Cons x xs)
  show ?case
  proof (cases "f x")
    case None
    show ?thesis
    proof (cases "mkdir_error e x")
      case no_error: None
      have "x \<noteq> q" using None Cons.prems(2) by auto
      then have "(f(x \<mapsto> Dir)) q = Some n" using Cons.prems(2) by simp
      moreover have "mkdir_chain e xs (f(x \<mapsto> Dir)) = (r, f1)"
        using Cons.prems(1) None no_error by simp
      ultimately show ?thesis using Cons.IH by blast
    next
      case (Some msg)
      then show ?thesis using Cons.prems None by simp
    qed
  next
    case (Some nd)
    then show ?thesis using Cons by (cases nd) auto
  qed
qed

lemma mkdir_chain_outside:
  "mkdir_chain e qs f = (r, f1) \<Longrightarrow> q \<notin> set qs \<Longrightarrow> f1 q = f q"
proof (induction qs arbitrary: f)
  case Nil
  then show ?case by simp
next
  case (Cons x xs)
  show ?case
  proof (cases "f x")
    case None
    show ?thesis
    proof (cases "mkdir_error e x")
      case no_error: None
      have "mkdir_chain e xs (f(x \<mapsto> Dir)) = (r, f1)"
        using Cons.prems(1) None no_error by simp
      then have "f1 q = (f(x \<mapsto> Dir)) q" using Cons.IH Cons.prems(2) by simp
      then show ?thesis using Cons.prems(2) by simp
    next
      case (Some msg)
      then show ?thesis using Cons.prems None by simp
    qed
  next
    case (Some nd)
    then show ?thesis using Cons by (cases nd) auto
  qed
qed

lemma mkdir_chain_made:
  "mkdir_chain e qs f = (None, f1) \<Longrightarrow> q \<in> set qs \<Longrightarrow> f1 q = Some Dir"
proof (induction qs arbitrary: f)
  case Nil
  then show ?case by simp
next
  case (Cons x xs)
  show ?case
  proof (cases "f x")
    case None
    show ?thesis
    proof (cases "mkdir_error e x")
      case no_error: None
      have rest: "mkdir_chain e xs (f(x \<mapsto> Dir)) = (None, f1)"
        using Cons.prems(1) None no_error by simp
      show ?thesis
      proof (cases "q \<in> set xs")
        case True
        then show ?thesis using Cons.IH rest by blast
      next
        case False
        then have "q = x" using Cons.prems(2) by simp
        then show ?thesis using mkdir_chain_keeps [OF rest, of x Dir] by simp
      qed
    next
      case (Some msg)
      then show ?thesis using Cons.prems None by simp
    qed
  next
    case (Some nd)
    show ?thesis
    proof (cases nd)
      case (File content)
      then show ?thesis using Cons.prems Some by simp
    next
      case Dir
      then have rest: "mkdir_chain e xs f = (None, f1)" using Cons.prems(1) Some by simp
      show ?thesis
      proof (cases "q \<in> set xs")
        case True
        then show ?thesis using Cons.IH rest by blast
      next
        case False
        then have "q = x" using Cons.prems(2) by simp
        then show ?thesis using mkdir_chain_keeps [OF rest, of x Dir] Some Dir by simp
      qed
    qed
  qed
qed

lemma mkdir_chain_succeeds:
  "\<forall>q\<in>set qs. f q = Some Dir \<or> (f q = None \<and> mkdir_error e q = None) \<Longrightarrow>
     \<exists>f1. mkdir_chain e qs f = (None, f1)"
proof (induction qs arbitrary: f)
  case Nil
  then show ?case by simp
next
  case (Cons x xs)
  show ?case
  proof (cases "f x")
    case None
    then have no_error: "mkdir_error e x = None" using Cons.prems by auto
    have "\<forall>q\<in>set xs. (f(x \<mapsto> Dir)) q = Some Dir \<or> ((f(x \<mapsto> Dir)) q = None \<and> mkdir_error e q = None)"
      using Cons.prems by auto
    then show ?thesis using Cons.IH None no_error by simp
  next
    case (Some nd)
    then have "nd = Dir" using Cons.prems by auto
    moreover have "\<forall>q\<in>set xs. f q = Some Dir \<or> (f q = None \<and> mkdir_error e q = None)"
      using Cons.prems by auto
    ultimately show ?thesis using Cons.IH Some by simp
  qed
qed

lemma MkdirAll_log: "MkdirAll e w p = (r, w1) \<Longrightarrow> log w1 = log w @ [EvMkdirAll p]"
  by (auto simp: MkdirAll_def record_event_def split: prod.splits)

lemma MkdirAll_Stat: "MkdirAll e w p = (None, w1) \<Longrightarrow> Stat w1 p"
  using mkdir_chain_made [of e "dir_chain p" "fs w" _ p] dir_chain_self [of p]
  by (auto simp: MkdirAll_def record_event_def Stat_def split: prod.splits)

lemma MkdirAll_outside:
  "MkdirAll e w p = (r, w1) \<Longrightarrow> q \<notin> set (dir_chain p) \<Longrightarrow> fs w1 q = fs w q"
  using mkdir_chain_outside [of e "dir_chain p" "fs w" r _ q]
  by (auto simp: MkdirAll_def record_event_def split: prod.splits)

subsection \<open>Resolver entries are counted once\<close>













subsection \<open>What a resolver returns\<close>

text \<open>A resolver returns an error and no module, or no error and a module that carries the
  specifier and the resolver's own scheme.\<close>

lemma loadLocalModule_result:
  "loadLocalModule e w u = ((p, err), w1) \<Longrightarrow>
     (case err of Some x \<Rightarrow> p = None | None \<Rightarrow> (\<exists>m. p = Some m \<and> URL m = u \<and> Type m = TypeLocal))"
  by (auto simp: loadLocalModule_def Let_def split: sum.splits prod.splits)

lemma loadCDNModule_result:
  "loadCDNModule e w u = ((p, err), w1) \<Longrightarrow>
     (case err of Some x \<Rightarrow> p = None | None \<Rightarrow> (\<exists>m. p = Some m \<and> URL m = u \<and> Type m = TypeCDN))"
  by (auto simp: loadCDNModule_def Let_def split: sum.splits prod.splits option.splits http_result.splits)

lemma loadNPMModule_result:
  "loadNPMModule e w u = ((p, err), w1) \<Longrightarrow>
     (case err of Some x \<Rightarrow> p = None | None \<Rightarrow> (\<exists>m. p = Some m \<and> URL m = u \<and> Type m = TypeNPM))"
  by (auto simp: loadNPMModule_def Let_def split: sum.splits prod.splits)

lemma dispatch_result:
  "dispatch e w t u = Some ((p, err), w1) \<Longrightarrow>
     (case err of Some x \<Rightarrow> p = None
      | None \<Rightarrow> (\<exists>m. p = Some m \<and> URL m = u \<and> Type m = t \<and> t \<noteq> TypeJSR \<and> t \<noteq> TypeUnknown))"
  by (cases t)
     (auto dest!: loadLocalModule_result loadCDNModule_result loadNPMModule_result
           simp: loadJSRModule_def split: option.splits)

subsection \<open>The ways through the loader\<close>

lemma LoadModule_hit:
  "IsValid (ValidateURL e S) \<Longrightarrow> getFromCache c S = Some m \<Longrightarrow>
     LoadModule e c w S = ((Some m, None), c, w)"
  by (simp add: LoadModule_def)

lemma LoadModule_invalid:
  "\<not> IsValid (ValidateURL e S) \<Longrightarrow> LoadModule e c w S = ((None, Error (ValidateURL e S)), c, w)"
  by (simp add: LoadModule_def)

lemma LoadModule_unsupported:
  "IsValid (ValidateURL e S) \<Longrightarrow> getFromCache c S = None \<Longrightarrow>
   dispatch e w (PackageType (ValidateURL e S)) S = None \<Longrightarrow>
     LoadModule e c w S = ((None, Some (Sentinel ErrUnsupportedModule)), c, w)"
  by (simp add: LoadModule_def)

lemma LoadModule_failure:
  "IsValid (ValidateURL e S) \<Longrightarrow> getFromCache c S = None \<Longrightarrow>
   dispatch e w (PackageType (ValidateURL e S)) S = Some ((p, Some x), w1) \<Longrightarrow>
     LoadModule e c w S = ((None, Some x), c, w1)"
  by (simp add: LoadModule_def)

lemma LoadModule_success:
  "IsValid (ValidateURL e S) \<Longrightarrow> getFromCache c S = None \<Longrightarrow>
   dispatch e w (PackageType (ValidateURL e S)) S = Some ((p, None), w1) \<Longrightarrow>
     LoadModule e c w S = ((p, None), c(S \<mapsto> p), w1)"
  by (simp add: LoadModule_def)

text \<open>The five ways through \<^verbatim>\<open>LoadModule\<close>: the specifier is invalid, the cache has it, no
  resolver handles its scheme, the resolver fails, the resolver succeeds.\<close>

lemma LoadModule_cases:
  obtains
    (invalid) "\<not> IsValid (ValidateURL e S)"
      "LoadModule e c w S = ((None, Error (ValidateURL e S)), c, w)"
  | (hit) m where "IsValid (ValidateURL e S)" "getFromCache c S = Some m"
      "LoadModule e c w S = ((Some m, None), c, w)"
  | (unsupported) "IsValid (ValidateURL e S)" "getFromCache c S = None"
      "dispatch e w (PackageType (ValidateURL e S)) S = None"
      "LoadModule e c w S = ((None, Some (Sentinel ErrUnsupportedModule)), c, w)"
  | (failure) p x w1 where "IsValid (ValidateURL e S)" "getFromCache c S = None"
      "dispatch e w (PackageType (ValidateURL e S)) S = Some ((p, Some x), w1)"
      "LoadModule e c w S = ((None, Some x), c, w1)"
  | (success) m w1 where "IsValid (ValidateURL e S)" "getFromCache c S = None"
      "dispatch e w (PackageType (ValidateURL e S)) S = Some ((Some m, None), w1)"
      "URL m = S" "Type m = PackageType (ValidateURL e S)"
      "Type m = TypeLocal \<or> Type m = TypeCDN \<or> Type m = TypeNPM"
      "LoadModule e c w S = ((Some m, None), c(S \<mapsto> Some m), w1)"
proof (cases "IsValid (ValidateURL e S)")
  case False
  then show ?thesis using invalid LoadModule_invalid by blast
next
  case valid: True
  show ?thesis
  proof (cases "getFromCache c S")
    case (Some m)
    then show ?thesis using hit valid LoadModule_hit by blast
  next
    case miss: None
    show ?thesis
    proof (cases "dispatch e w (PackageType (ValidateURL e S)) S")
      case None
      then show ?thesis using unsupported valid miss LoadModule_unsupported by blast
    next
      case (Some r)
      obtain p err w1 where r: "r = ((p, err), w1)" by (cases r) auto
      show ?thesis
      proof (cases err)
        case (Some x)
        then show ?thesis using failure valid miss \<open>dispatch e w (PackageType (ValidateURL e S)) S = Some r\<close> r LoadModule_failure by blast
      next
        case None
        have d: "dispatch e w (PackageType (ValidateURL e S)) S = Some ((p, None), w1)"
          using \<open>dispatch e w (PackageType (ValidateURL e S)) S = Some r\<close> r None by simp
        from dispatch_result [OF d]
        obtain m where m: "p = Some m" "URL m = S" "Type m = PackageType (ValidateURL e S)"
          "PackageType (ValidateURL e S) \<noteq> TypeJSR" "PackageType (ValidateURL e S) \<noteq> TypeUnknown"
          by auto
        have t: "Type m = TypeLocal \<or> Type m = TypeCDN \<or> Type m = TypeNPM"
          using m(3,4,5) by (cases "PackageType (ValidateURL e S)") auto
        show ?thesis
          using success [of m w1] valid miss d m t LoadModule_success [OF valid miss d] by simp
      qed
    qed
  qed
qed

lemma cache_invD:
  "cache_inv e c \<Longrightarrow> c k = Some p \<Longrightarrow>
     \<exists>m. p = Some m \<and> URL m = k \<and> IsValid (ValidateURL e k) \<and>
         Type m = PackageType (ValidateURL e k) \<and>
         (Type m = TypeLocal \<or> Type m = TypeCDN \<or> Type m = TypeNPM)"
  by (simp add: cache_inv_def)

lemma cache_inv_empty: "cache_inv e NewModuleLoader"
  by (simp add: cache_inv_def NewModuleLoader_def)

subsection \<open>The content cache\<close>

lemma getFromCache_Some: "getFromCache c S = Some m \<Longrightarrow> c S = Some (Some m)"
  by (auto simp: getFromCache_def split: option.splits)

lemma LoadModule_stores:
  assumes "LoadModule e c w S = ((r, None), c1, w1)" and "IsValid (ValidateURL e S)"
  shows "r \<noteq> None \<and> c1 S = Some r \<and> getFromCache c1 S = r"
proof (cases e S c w rule: LoadModule_cases)
  case invalid
  then show ?thesis using assms by simp
next
  case (hit m)
  then show ?thesis using assms getFromCache_Some [OF hit(2)] by auto
next
  case unsupported
  then show ?thesis using assms by simp
next
  case (failure p x w2)
  then show ?thesis using assms by simp
next
  case (success m w2)
  then show ?thesis using assms by (auto simp: getFromCache_def)
qed

text \<open>
  C1. When \<^verbatim>\<open>LoadModule\<close> returns without an error for a specifier, a second call for the
  same specifier, made right after the first, returns the same module pointer, hence the
  same content, and leaves the cache and the world as they are: no resolver is entered
  and no file or network operation is performed. For a valid specifier the pointer is
  not \<^verbatim>\<open>nil\<close> and the first call has left it in the cache under the specifier, which is
  where the second call finds it.
\<close>

theorem load_twice_cache_hit:
  assumes "LoadModule e c w S = ((r, None), c1, w1)"
  shows "LoadModule e c1 w1 S = ((r, None), c1, w1) \<and>
         (IsValid (ValidateURL e S) \<longrightarrow> r \<noteq> None \<and> c1 S = Some r \<and> getFromCache c1 S = r) \<and>
         resolver_calls (snd (snd (LoadModule e c1 w1 S))) = resolver_calls w1 \<and>
         log (snd (snd (LoadModule e c1 w1 S))) = log w1"
proof -
  have stored: "r \<noteq> None \<and> c1 S = Some r \<and> getFromCache c1 S = r" if "IsValid (ValidateURL e S)"
    using LoadModule_stores [OF assms that] .
  have again: "LoadModule e c1 w1 S = ((r, None), c1, w1)"
  proof (cases "IsValid (ValidateURL e S)")
    case True
    from stored [OF True] obtain m where "r = Some m" "getFromCache c1 S = Some m" by auto
    then show ?thesis using True by (simp add: LoadModule_hit)
  next
    case False
    then show ?thesis using assms by (simp add: LoadModule_invalid)
  qed
  show ?thesis using stored again by simp
qed


text \<open>
  C8. The JSR resolver always fails with \<^verbatim>\<open>ErrJSRNotImplemented\<close>. In a cache that
  satisfies the invariant, \<^verbatim>\<open>LoadModule\<close> never returns a module for a specifier of scheme
  JSR and never stores one, whatever the package name; when the validator accepts the
  specifier, the error returned is \<^verbatim>\<open>ErrJSRNotImplemented\<close>.
\<close>

theorem jsr_never_loads:
  assumes "cache_inv e c" and "PackageType (ValidateURL e S) = TypeJSR"
  shows "loadJSRModule e w S =
           ((None, Some (Sentinel ErrJSRNotImplemented)), record_event (EvResolve TypeJSR S) w) \<and>
         fst (fst (LoadModule e c w S)) = None \<and>
         fst (snd (LoadModule e c w S)) = c \<and>
         (IsValid (ValidateURL e S) \<longrightarrow>
            fst (LoadModule e c w S) = (None, Some (Sentinel ErrJSRNotImplemented)))"
proof -
  have miss: "getFromCache c S = None"
  proof (cases "c S")
    case None
    then show ?thesis by (simp add: getFromCache_def)
  next
    case (Some p)
    from cache_invD [OF assms(1) Some] obtain m :: Module
      where "Type m = PackageType (ValidateURL e S)"
        and "Type m = TypeLocal \<or> Type m = TypeCDN \<or> Type m = TypeNPM"
      by auto
    then have False using assms(2) by auto
    then show ?thesis ..
  qed
  have jsr: "dispatch e w (PackageType (ValidateURL e S)) S =
      Some ((None, Some (Sentinel ErrJSRNotImplemented)), record_event (EvResolve TypeJSR S) w)"
    using assms(2) by (simp add: loadJSRModule_def)
  show ?thesis
  proof (cases "IsValid (ValidateURL e S)")
    case True
    then show ?thesis
      using LoadModule_failure [OF True miss jsr] by (simp add: loadJSRModule_def)
  next
    case False
    then show ?thesis
      by (simp add: LoadModule_invalid loadJSRModule_def)
  qed
qed

text \<open>
  C10. The cache of a new loader satisfies the invariant, and every call of \<^verbatim>\<open>LoadModule\<close>
  preserves it: every key is bound to a pointer that is not \<^verbatim>\<open>nil\<close>, to a module whose URL
  is the key and whose scheme is the one of the resolver that the key is dispatched to.
  A call changes no entry that is already there.
\<close>

theorem cache_invariant:
  "cache_inv e NewModuleLoader \<and>
   (cache_inv e c \<longrightarrow>
      cache_inv e (fst (snd (LoadModule e c w S))) \<and>
      (\<forall>k p. c k = Some p \<longrightarrow> fst (snd (LoadModule e c w S)) k = Some p))"
proof -
  have init: "cache_inv e NewModuleLoader"
    by (rule cache_inv_empty)
  have step: "cache_inv e (fst (snd (LoadModule e c w S))) \<and>
      (\<forall>k p. c k = Some p \<longrightarrow> fst (snd (LoadModule e c w S)) k = Some p)" if inv: "cache_inv e c"
  proof (cases e S c w rule: LoadModule_cases)
    case invalid
    then show ?thesis using inv by simp
  next
    case (hit m)
    then show ?thesis using inv by simp
  next
    case unsupported
    then show ?thesis using inv by simp
  next
    case (failure p x w1)
    then show ?thesis using inv by simp
  next
    case (success m w1)
    have absent: "c S = None"
    proof (cases "c S")
      case None
      then show ?thesis .
    next
      case (Some p)
      from cache_invD [OF inv Some] obtain m' where "p = Some m'" by auto
      then show ?thesis using Some success(2) by (simp add: getFromCache_def)
    qed
    have new: "cache_inv e (c(S \<mapsto> Some m))"
      using inv success(1,4,5,6) unfolding cache_inv_def by auto
    have kept: "\<forall>k p. c k = Some p \<longrightarrow> (c(S \<mapsto> Some m)) k = Some p"
      using absent by auto
    show ?thesis using success(7) new kept by simp
  qed
  show ?thesis using init step by blast
qed

subsection \<open>Two loads of one specifier at the same time\<close>









subsection \<open>The package cache on disk\<close>

lemma registry_requests_record_event:
  "registry_requests (record_event ev w) = registry_requests w + (if is_http ev then 1 else 0)"
  by (simp add: registry_requests_def record_event_def)

lemma MkdirAll_requests: "MkdirAll e w p = (r, w1) \<Longrightarrow> registry_requests w1 = registry_requests w"
  by (simp add: MkdirAll_log registry_requests_def is_http_def)

lemma WriteFile_requests:
  "WriteFile e w p c = (r, w1) \<Longrightarrow> registry_requests w1 = registry_requests w"
  by (auto simp: WriteFile_def registry_requests_record_event is_http_def split: option.splits)
     (simp_all add: registry_requests_def)

lemma HttpGet_requests:
  "HttpGet e w u = (r, w1) \<Longrightarrow> registry_requests w1 = Suc (registry_requests w)"
  by (auto simp: HttpGet_def registry_requests_record_event is_http_def)

lemma Stat_record_event: "Stat (record_event ev w) p = Stat w p"
  by (simp add: Stat_def record_event_def)

lemma WriteFile_Stat: "WriteFile e w q c = (r, w1) \<Longrightarrow> Stat w p \<Longrightarrow> Stat w1 p"
  by (auto simp: WriteFile_def Stat_record_event split: option.splits)
     (simp_all add: Stat_def split: option.splits)

lemma InstallPackage_hit:
  "name_version pkg = (name, version) \<Longrightarrow> Stat w (cachePath_of e pm name version) \<Longrightarrow>
     InstallPackage e pm w pkg = (Inr (cachePath_of e pm name version), w)"
  by (simp add: InstallPackage_def)

lemma InstallPackage_installed:
  assumes "InstallPackage e pm w pkg = (Inr path, w1)"
    and "name_version pkg = (name, version)"
  shows "path = cachePath_of e pm name version \<and> Stat w1 path \<and>
         registry_requests w1 \<le> Suc (registry_requests w)"
proof (cases "Stat w (cachePath_of e pm name version)")
  case True
  then show ?thesis using assms InstallPackage_hit [OF assms(2) True] by simp
next
  case False
  obtain r wa where g: "HttpGet e w (registryURL_of name version) = (r, wa)"
    by (cases "HttpGet e w (registryURL_of name version)")
  obtain mr wb where m: "MkdirAll e wa (cachePath_of e pm name version) = (mr, wb)"
    by (cases "MkdirAll e wa (cachePath_of e pm name version)")
  obtain wr wc where wf: "WriteFile e wb (Join e [cachePath_of e pm name version, ''index.js''])
      ''// TODO: Implement package content'' = (wr, wc)"
    by (cases "WriteFile e wb (Join e [cachePath_of e pm name version, ''index.js''])
      ''// TODO: Implement package content''")
  from assms False g m wf
  have ok: "mr = None" "wr = None" "w1 = wc" "path = cachePath_of e pm name version"
    by (auto simp: InstallPackage_def Let_def split: http_result.splits if_splits option.splits)
  have st: "Stat wc (cachePath_of e pm name version)"
    using MkdirAll_Stat m ok(1) WriteFile_Stat [OF wf] by blast
  have rq: "registry_requests wc = Suc (registry_requests w)"
    using HttpGet_requests [OF g] MkdirAll_requests [OF m] WriteFile_requests [OF wf] by simp
  show ?thesis using ok st rq by simp
qed

text \<open>
  C7. When the directory of the name and version exists, \<^verbatim>\<open>InstallPackage\<close> returns its
  path and leaves the world as it is: no registry request, no directory made, no file
  written. So when an install has succeeded, the same install made again returns the
  same path and changes nothing, and the two calls together made at most one registry
  request.
\<close>

theorem InstallPackage_cached:
  "(Stat w (cachePath_of e pm (fst (name_version pkg)) (snd (name_version pkg))) \<longrightarrow>
      InstallPackage e pm w pkg =
        (Inr (cachePath_of e pm (fst (name_version pkg)) (snd (name_version pkg))), w)) \<and>
   (InstallPackage e pm w pkg = (Inr path, w1) \<longrightarrow>
      InstallPackage e pm w1 pkg = (Inr path, w1) \<and>
      registry_requests w1 \<le> Suc (registry_requests w))"
proof -
  obtain name version where nv: "name_version pkg = (name, version)"
    by (cases "name_version pkg")
  have first: "InstallPackage e pm w pkg = (Inr (cachePath_of e pm name version), w)"
    if "Stat w (cachePath_of e pm name version)"
    using InstallPackage_hit [OF nv that] .
  have second: "InstallPackage e pm w1 pkg = (Inr path, w1) \<and>
      registry_requests w1 \<le> Suc (registry_requests w)"
    if "InstallPackage e pm w pkg = (Inr path, w1)"
    using InstallPackage_installed [OF that nv] InstallPackage_hit [OF nv, of w1 e pm] by auto
  show ?thesis using nv first second by simp
qed

subsection \<open>What a package reference becomes\<close>

lemma WriteFile_log: "WriteFile e w p content = (r, w1) \<Longrightarrow> log w1 = log w @ [EvWriteFile p]"
  by (auto simp: WriteFile_def record_event_def split: option.splits)

lemma HttpGet_log: "HttpGet e w u = (r, w1) \<Longrightarrow> log w1 = log w @ [EvHttpGet u]"
  by (auto simp: HttpGet_def record_event_def)

lemma ReadFile_log: "ReadFile e w p = (r, w1) \<Longrightarrow> log w1 = log w @ [EvReadFile p]"
  by (auto simp: ReadFile_def record_event_def split: option.splits node.splits)

text \<open>An install that does not find the directory asks the registry for the name and the
  version first, and then makes nothing but the directory of the name and the version
  and the entry file in it.\<close>

lemma InstallPackage_miss:
  assumes nv: "name_version pkg = (n, v)"
    and nostat: "\<not> Stat w (Join e [cacheDir pm, n, v])"
  shows "\<exists>evs. log (snd (InstallPackage e pm w pkg)) =
             log w @ EvHttpGet (''https://registry.npmjs.org/'' @ n @ ''/'' @ v) # evs \<and>
           (evs = [] \<or> evs = [EvMkdirAll (Join e [cacheDir pm, n, v])] \<or>
            evs = [EvMkdirAll (Join e [cacheDir pm, n, v]),
                   EvWriteFile (Join e [Join e [cacheDir pm, n, v], ''index.js''])]) \<and>
           (\<forall>p. fst (InstallPackage e pm w pkg) = Inr p \<longrightarrow> p = Join e [cacheDir pm, n, v])"
proof -
  let ?P = "Join e [cacheDir pm, n, v]"
  let ?U = "''https://registry.npmjs.org/'' @ n @ ''/'' @ v"
  obtain r wa where g: "HttpGet e w ?U = (r, wa)" by (cases "HttpGet e w ?U")
  obtain mr wb where m: "MkdirAll e wa ?P = (mr, wb)" by (cases "MkdirAll e wa ?P")
  obtain wr wc where wf:
    "WriteFile e wb (Join e [?P, ''index.js'']) ''// TODO: Implement package content'' = (wr, wc)"
    by (cases "WriteFile e wb (Join e [?P, ''index.js'']) ''// TODO: Implement package content''")
  have la: "log wa = log w @ [EvHttpGet ?U]" using HttpGet_log [OF g] .
  have lb: "log wb = log w @ [EvHttpGet ?U, EvMkdirAll ?P]"
    using MkdirAll_log [OF m] la by simp
  have lc: "log wc = log w @ [EvHttpGet ?U, EvMkdirAll ?P, EvWriteFile (Join e [?P, ''index.js''])]"
    using WriteFile_log [OF wf] lb by simp
  show ?thesis
    using nv nostat g m wf la lb lc
    by (auto simp: InstallPackage_def cachePath_of_def registryURL_of_def Let_def
             split: http_result.splits option.splits)
qed

lemma InstallPackage_found:
  "name_version pkg = (n, v) \<Longrightarrow> Stat w (Join e [cacheDir pm, n, v]) \<Longrightarrow>
     InstallPackage e pm w pkg = (Inr (Join e [cacheDir pm, n, v]), w)"
  by (simp add: InstallPackage_def cachePath_of_def)

text \<open>The NPM resolver hands the specifier without its prefix to \<^verbatim>\<open>InstallPackage\<close>; its
  effects are those of the install, and then the read of the entry file.\<close>

lemma loadNPMModule_log:
  assumes "NewNPMPackageManager e (record_event (EvResolve TypeNPM url) w) = (Inr pm, w1)"
  shows "\<exists>evs. log (snd (loadNPMModule e w url)) =
            log (snd (InstallPackage e pm w1 (TrimPrefix url ''npm:''))) @ evs \<and>
          (case fst (InstallPackage e pm w1 (TrimPrefix url ''npm:'')) of
             Inl err \<Rightarrow> evs = [] \<and>
               fst (loadNPMModule e w url) =
                 (None, Some (Wrap (Sentinel ErrPackageInstall) (error_text e err)))
           | Inr path \<Rightarrow> evs = [EvReadFile (Join e [path, ''index.js''])])"
proof -
  obtain r w2 where ip: "InstallPackage e pm w1 (TrimPrefix url ''npm:'') = (r, w2)"
    by (cases "InstallPackage e pm w1 (TrimPrefix url ''npm:'')")
  show ?thesis
  proof (cases r)
    case (Inl err)
    then show ?thesis using assms ip by (simp add: loadNPMModule_def Let_def)
  next
    case (Inr path)
    obtain rr w3 where rf: "ReadFile e w2 (Join e [path, ''index.js'']) = (rr, w3)"
      by (cases "ReadFile e w2 (Join e [path, ''index.js''])")
    show ?thesis
      using assms ip Inr rf ReadFile_log [OF rf]
      by (cases rr) (simp_all add: loadNPMModule_def Let_def)
  qed
qed

text \<open>
  C6. The NPM resolver strips the prefix \<^verbatim>\<open>npm:\<close> and \<^verbatim>\<open>InstallPackage\<close> splits the rest
  at \<^verbatim>\<open>@\<close>: a reference \<^verbatim>\<open>npm:n@v\<close>, with no \<^verbatim>\<open>@\<close> in \<open>n\<close> and \<open>v\<close>, has the name \<open>n\<close>
  and the version \<open>v\<close>, and \<^verbatim>\<open>npm:n\<close> has the name \<open>n\<close> and the version \<^verbatim>\<open>latest\<close>. So
  \<^verbatim>\<open>npm:left-pad@1.3.0\<close> gives \<^verbatim>\<open>left-pad\<close> and \<^verbatim>\<open>1.3.0\<close>, and \<^verbatim>\<open>npm:left-pad\<close> gives
  \<^verbatim>\<open>left-pad\<close> and \<^verbatim>\<open>latest\<close>. These are the name and the version that the code uses:
  \<^verbatim>\<open>InstallPackage\<close>, given the specifier without its prefix, returns the directory of
  \<open>n\<close> and \<open>v\<close> (or \<^verbatim>\<open>latest\<close>) under the cache root when it exists, and otherwise asks the
  registry for \<open>n\<close> and \<open>v\<close> (or \<^verbatim>\<open>latest\<close>) first; and the NPM resolver, once the package
  manager is there, performs exactly that install and then at most the read of the entry
  file.
\<close>

theorem npm_specifier_parsing:
  assumes "CHR ''@'' \<notin> set n" and "CHR ''@'' \<notin> set v"
  shows "name_version (TrimPrefix (''npm:'' @ n @ ''@'' @ v) ''npm:'') = (n, v) \<and>
         name_version (TrimPrefix (''npm:'' @ n) ''npm:'') = (n, ''latest'') \<and>
         name_version (TrimPrefix ''npm:left-pad@1.3.0'' ''npm:'') = (''left-pad'', ''1.3.0'') \<and>
         name_version (TrimPrefix ''npm:left-pad'' ''npm:'') = (''left-pad'', ''latest'') \<and>
         (\<forall>u ver. (u = ''npm:'' @ n @ ''@'' @ v \<and> ver = v) \<or> (u = ''npm:'' @ n \<and> ver = ''latest'') \<longrightarrow>
            (Stat w (Join e [cacheDir pm, n, ver]) \<longrightarrow>
               InstallPackage e pm w (TrimPrefix u ''npm:'') = (Inr (Join e [cacheDir pm, n, ver]), w)) \<and>
            (\<not> Stat w (Join e [cacheDir pm, n, ver]) \<longrightarrow>
               (\<exists>evs. log (snd (InstallPackage e pm w (TrimPrefix u ''npm:''))) =
                    log w @ EvHttpGet (''https://registry.npmjs.org/'' @ n @ ''/'' @ ver) # evs) \<and>
               (\<forall>p. fst (InstallPackage e pm w (TrimPrefix u ''npm:'')) = Inr p \<longrightarrow>
                    p = Join e [cacheDir pm, n, ver])) \<and>
            (NewNPMPackageManager e (record_event (EvResolve TypeNPM u) w0) = (Inr pm, w) \<longrightarrow>
               (\<exists>evs. log (snd (loadNPMModule e w0 u)) =
                    log (snd (InstallPackage e pm w (TrimPrefix u ''npm:''))) @ evs \<and>
                  (evs = [] \<or> evs = [EvReadFile (Join e [Join e [cacheDir pm, n, ver], ''index.js''])]))))"
proof -
  have tw: "takeWhile (\<lambda>c. c \<noteq> CHR ''@'') v = v"
    using assms(2) by auto
  have a: "name_version (TrimPrefix (''npm:'' @ n @ ''@'' @ v) ''npm:'') = (n, v)"
    using name_version_at [OF assms(1), of v] tw by (simp add: TrimPrefix_def)
  have b: "name_version (TrimPrefix (''npm:'' @ n) ''npm:'') = (n, ''latest'')"
    using name_version_no_at [OF assms(1)] by (simp add: TrimPrefix_def)
  have c: "name_version (TrimPrefix ''npm:left-pad@1.3.0'' ''npm:'') = (''left-pad'', ''1.3.0'')"
    by (simp add: TrimPrefix_def name_version_def Split_def)
  have d: "name_version (TrimPrefix ''npm:left-pad'' ''npm:'') = (''left-pad'', ''latest'')"
    by (simp add: TrimPrefix_def name_version_def Split_def)
  have uses: "(Stat w (Join e [cacheDir pm, n, ver]) \<longrightarrow>
               InstallPackage e pm w (TrimPrefix u ''npm:'') = (Inr (Join e [cacheDir pm, n, ver]), w)) \<and>
            (\<not> Stat w (Join e [cacheDir pm, n, ver]) \<longrightarrow>
               (\<exists>evs. log (snd (InstallPackage e pm w (TrimPrefix u ''npm:''))) =
                    log w @ EvHttpGet (''https://registry.npmjs.org/'' @ n @ ''/'' @ ver) # evs) \<and>
               (\<forall>p. fst (InstallPackage e pm w (TrimPrefix u ''npm:'')) = Inr p \<longrightarrow>
                    p = Join e [cacheDir pm, n, ver])) \<and>
            (NewNPMPackageManager e (record_event (EvResolve TypeNPM u) w0) = (Inr pm, w) \<longrightarrow>
               (\<exists>evs. log (snd (loadNPMModule e w0 u)) =
                    log (snd (InstallPackage e pm w (TrimPrefix u ''npm:''))) @ evs \<and>
                  (evs = [] \<or> evs = [EvReadFile (Join e [Join e [cacheDir pm, n, ver], ''index.js''])])))"
    if nv: "name_version (TrimPrefix u ''npm:'') = (n, ver)" for u ver
  proof -
    have found: "InstallPackage e pm w (TrimPrefix u ''npm:'') = (Inr (Join e [cacheDir pm, n, ver]), w)"
      if "Stat w (Join e [cacheDir pm, n, ver])"
      using InstallPackage_found [OF nv that] .
    have missed: "(\<exists>evs. log (snd (InstallPackage e pm w (TrimPrefix u ''npm:''))) =
                    log w @ EvHttpGet (''https://registry.npmjs.org/'' @ n @ ''/'' @ ver) # evs) \<and>
               (\<forall>p. fst (InstallPackage e pm w (TrimPrefix u ''npm:'')) = Inr p \<longrightarrow>
                    p = Join e [cacheDir pm, n, ver])"
      if "\<not> Stat w (Join e [cacheDir pm, n, ver])"
      using InstallPackage_miss [OF nv that] by blast
    have path: "p = Join e [cacheDir pm, n, ver]"
      if "fst (InstallPackage e pm w (TrimPrefix u ''npm:'')) = Inr p" for p
      using that found missed by (cases "Stat w (Join e [cacheDir pm, n, ver])") auto
    have resolver: "\<exists>evs. log (snd (loadNPMModule e w0 u)) =
                    log (snd (InstallPackage e pm w (TrimPrefix u ''npm:''))) @ evs \<and>
                  (evs = [] \<or> evs = [EvReadFile (Join e [Join e [cacheDir pm, n, ver], ''index.js''])])"
      if pm: "NewNPMPackageManager e (record_event (EvResolve TypeNPM u) w0) = (Inr pm, w)"
    proof -
      from loadNPMModule_log [OF pm] obtain evs where
        l: "log (snd (loadNPMModule e w0 u)) =
              log (snd (InstallPackage e pm w (TrimPrefix u ''npm:''))) @ evs"
        and k: "case fst (InstallPackage e pm w (TrimPrefix u ''npm:'')) of
             Inl err \<Rightarrow> evs = [] \<and>
               fst (loadNPMModule e w0 u) =
                 (None, Some (Wrap (Sentinel ErrPackageInstall) (error_text e err)))
           | Inr path \<Rightarrow> evs = [EvReadFile (Join e [path, ''index.js''])]"
        by blast
      have "evs = [] \<or> evs = [EvReadFile (Join e [Join e [cacheDir pm, n, ver], ''index.js''])]"
        using k path by (cases "fst (InstallPackage e pm w (TrimPrefix u ''npm:''))") auto
      then show ?thesis using l by blast
    qed
    show ?thesis using found missed resolver by blast
  qed
  have both: "\<forall>u ver. (u = ''npm:'' @ n @ ''@'' @ v \<and> ver = v) \<or> (u = ''npm:'' @ n \<and> ver = ''latest'') \<longrightarrow>
      name_version (TrimPrefix u ''npm:'') = (n, ver)"
    using a b by blast
  show ?thesis
    using a b c d both uses by blast
qed

text \<open>
  C9. A package reference that begins with \<^verbatim>\<open>@\<close> (a scoped package) has the empty name,
  and its version is the text between the first \<^verbatim>\<open>@\<close> and the second, or the end; what
  follows a second \<^verbatim>\<open>@\<close> is dropped: \<^verbatim>\<open>@scope/name@1.0.0\<close> has the version \<^verbatim>\<open>scope/name\<close>.
  \<^verbatim>\<open>InstallPackage\<close> builds the cache path and the registry URL from the empty name: it
  returns the path joined from the cache root, the empty name and that version when it
  exists, and otherwise its first effect is the request of
  \<^verbatim>\<open>https://registry.npmjs.org//\<close> followed by that version, and it makes nothing but that
  directory and the entry file in it.
\<close>

theorem scoped_package_split:
  "name_version (CHR ''@'' # rest) = ([], takeWhile (\<lambda>c. c \<noteq> CHR ''@'') rest) \<and>
   registryURL_of (fst (name_version (CHR ''@'' # rest))) (snd (name_version (CHR ''@'' # rest)))
     = ''https://registry.npmjs.org//'' @ takeWhile (\<lambda>c. c \<noteq> CHR ''@'') rest \<and>
   cachePath_of e pm (fst (name_version (CHR ''@'' # rest))) (snd (name_version (CHR ''@'' # rest)))
     = Join e [cacheDir pm, [], takeWhile (\<lambda>c. c \<noteq> CHR ''@'') rest] \<and>
   name_version ''@scope/name@1.0.0'' = ([], ''scope/name'') \<and>
   (Stat w (Join e [cacheDir pm, [], takeWhile (\<lambda>c. c \<noteq> CHR ''@'') rest]) \<longrightarrow>
      InstallPackage e pm w (CHR ''@'' # rest) =
        (Inr (Join e [cacheDir pm, [], takeWhile (\<lambda>c. c \<noteq> CHR ''@'') rest]), w)) \<and>
   (\<not> Stat w (Join e [cacheDir pm, [], takeWhile (\<lambda>c. c \<noteq> CHR ''@'') rest]) \<longrightarrow>
      (\<exists>evs. log (snd (InstallPackage e pm w (CHR ''@'' # rest))) =
           log w @ EvHttpGet (''https://registry.npmjs.org//'' @ takeWhile (\<lambda>c. c \<noteq> CHR ''@'') rest) # evs \<and>
         (evs = [] \<or>
          evs = [EvMkdirAll (Join e [cacheDir pm, [], takeWhile (\<lambda>c. c \<noteq> CHR ''@'') rest])] \<or>
          evs = [EvMkdirAll (Join e [cacheDir pm, [], takeWhile (\<lambda>c. c \<noteq> CHR ''@'') rest]),
                 EvWriteFile (Join e [Join e [cacheDir pm, [], takeWhile (\<lambda>c. c \<noteq> CHR ''@'') rest],
                                      ''index.js''])])) \<and>
      (\<forall>p. fst (InstallPackage e pm w (CHR ''@'' # rest)) = Inr p \<longrightarrow>
           p = Join e [cacheDir pm, [], takeWhile (\<lambda>c. c \<noteq> CHR ''@'') rest]))"
proof -
  have a: "name_version (CHR ''@'' # r) = ([], takeWhile (\<lambda>c. c \<noteq> CHR ''@'') r)" for r
    using name_version_at [of "[]" r] by simp
  have b: "name_version ''@scope/name@1.0.0'' = ([], ''scope/name'')"
    by (simp add: a)
  have found: "InstallPackage e pm w (CHR ''@'' # rest) =
        (Inr (Join e [cacheDir pm, [], takeWhile (\<lambda>c. c \<noteq> CHR ''@'') rest]), w)"
    if "Stat w (Join e [cacheDir pm, [], takeWhile (\<lambda>c. c \<noteq> CHR ''@'') rest])"
    using InstallPackage_found [OF a that] .
  have missed: "(\<exists>evs. log (snd (InstallPackage e pm w (CHR ''@'' # rest))) =
           log w @ EvHttpGet (''https://registry.npmjs.org//'' @ takeWhile (\<lambda>c. c \<noteq> CHR ''@'') rest) # evs \<and>
         (evs = [] \<or>
          evs = [EvMkdirAll (Join e [cacheDir pm, [], takeWhile (\<lambda>c. c \<noteq> CHR ''@'') rest])] \<or>
          evs = [EvMkdirAll (Join e [cacheDir pm, [], takeWhile (\<lambda>c. c \<noteq> CHR ''@'') rest]),
                 EvWriteFile (Join e [Join e [cacheDir pm, [], takeWhile (\<lambda>c. c \<noteq> CHR ''@'') rest],
                                      ''index.js''])])) \<and>
      (\<forall>p. fst (InstallPackage e pm w (CHR ''@'' # rest)) = Inr p \<longrightarrow>
           p = Join e [cacheDir pm, [], takeWhile (\<lambda>c. c \<noteq> CHR ''@'') rest])"
    if "\<not> Stat w (Join e [cacheDir pm, [], takeWhile (\<lambda>c. c \<noteq> CHR ''@'') rest])"
  proof -
    have url: "''https://registry.npmjs.org/'' @ [] @ ''/'' @ x = ''https://registry.npmjs.org//'' @ x"
      for x :: string
      by simp
    show ?thesis
      using InstallPackage_miss [OF a that] unfolding url by blast
  qed
  have defs: "registryURL_of (fst (name_version (CHR ''@'' # rest))) (snd (name_version (CHR ''@'' # rest)))
     = ''https://registry.npmjs.org//'' @ takeWhile (\<lambda>c. c \<noteq> CHR ''@'') rest \<and>
   cachePath_of e pm (fst (name_version (CHR ''@'' # rest))) (snd (name_version (CHR ''@'' # rest)))
     = Join e [cacheDir pm, [], takeWhile (\<lambda>c. c \<noteq> CHR ''@'') rest]"
    by (simp add: a registryURL_of_def cachePath_of_def)
  show ?thesis
    using a [of rest] b defs found missed by blast
qed

subsection \<open>The error of a package the registry does not know\<close>

lemma NewNPMPackageManager_ok:
  assumes "UserHomeDir e = Inr home" and "dir = Join e [home, ''.edon'', ''npm-cache'']"
    and "\<forall>q\<in>set (dir_chain dir). fs w q = Some Dir \<or> (fs w q = None \<and> mkdir_error e q = None)"
  shows "\<exists>w1. NewNPMPackageManager e w = (Inr \<lparr>cacheDir = dir\<rparr>, w1) \<and>
          (\<forall>p. p \<notin> set (dir_chain dir) \<longrightarrow> fs w1 p = fs w p)"
proof -
  from mkdir_chain_succeeds [OF assms(3)]
  obtain f1 where f1: "mkdir_chain e (dir_chain dir) (fs w) = (None, f1)" by blast
  then have mk: "MkdirAll e w dir = (None, record_event (EvMkdirAll dir) (w\<lparr>fs := f1\<rparr>))"
    by (simp add: MkdirAll_def)
  have new: "NewNPMPackageManager e w =
      (Inr \<lparr>cacheDir = dir\<rparr>, record_event (EvMkdirAll dir) (w\<lparr>fs := f1\<rparr>))"
    using assms(1,2) mk by (simp add: NewNPMPackageManager_def Let_def)
  show ?thesis using new MkdirAll_outside [OF mk] by simp
qed

text \<open>
  C4, as amended. When the registry answers the metadata request of an \<^verbatim>\<open>npm:\<close> specifier
  with a status other than 200, \<^verbatim>\<open>InstallPackage\<close> fails with \<^verbatim>\<open>ErrPackageNotFound\<close>; the NPM
  resolver wraps that failure as \<^verbatim>\<open>ErrPackageInstall\<close>, keeping the text of the error as
  context, and \<^verbatim>\<open>LoadModule\<close> returns the resolver's error as it is: the caller sees an
  error of kind \<^verbatim>\<open>ErrPackageInstall\<close>, and the cache is unchanged. (The specifier is valid
  and not in the cache; the home directory is known; the cache root and each of its
  parents is there or can be made; the cache path of the package is neither on the disk
  nor the cache root or one of its parents, so that the request is made.)
\<close>

theorem npm_registry_failure:
  assumes valid: "IsValid (ValidateURL e S)" and npm: "PackageType (ValidateURL e S) = TypeNPM"
    and miss: "getFromCache c S = None"
    and home: "UserHomeDir e = Inr home"
    and dir: "dir = Join e [home, ''.edon'', ''npm-cache'']"
    and mk: "\<forall>q\<in>set (dir_chain dir). fs w q = Some Dir \<or> (fs w q = None \<and> mkdir_error e q = None)"
    and nv: "name_version (TrimPrefix S ''npm:'') = (name, version)"
    and fresh: "fs w (Join e [dir, name, version]) = None"
      "Join e [dir, name, version] \<notin> set (dir_chain dir)"
    and http: "http_do e (''https://registry.npmjs.org/'' @ name @ ''/'' @ version) = Response status body"
    and status: "status \<noteq> 200"
  shows "(\<forall>w'. \<not> Stat w' (Join e [dir, name, version]) \<longrightarrow>
            fst (InstallPackage e \<lparr>cacheDir = dir\<rparr> w' (TrimPrefix S ''npm:''))
              = Inl (Sentinel ErrPackageNotFound)) \<and>
         fst (LoadModule e c w S) =
           (None, Some (Wrap (Sentinel ErrPackageInstall) (error_text e (Sentinel ErrPackageNotFound)))) \<and>
         kind_of (Wrap (Sentinel ErrPackageInstall) (error_text e (Sentinel ErrPackageNotFound)))
           = ErrPackageInstall \<and>
         fst (snd (LoadModule e c w S)) = c"
proof -
  have inst: "fst (InstallPackage e \<lparr>cacheDir = dir\<rparr> w' (TrimPrefix S ''npm:''))
      = Inl (Sentinel ErrPackageNotFound)" if "\<not> Stat w' (Join e [dir, name, version])" for w'
    using that nv http status
    by (simp add: InstallPackage_def cachePath_of_def registryURL_of_def HttpGet_def)
  let ?w0 = "record_event (EvResolve TypeNPM S) w"
  have fs0: "fs ?w0 = fs w" by (simp add: record_event_def)
  from NewNPMPackageManager_ok [of e home dir ?w0] home mk dir fs0
  obtain w1 where pm: "NewNPMPackageManager e ?w0 = (Inr \<lparr>cacheDir = dir\<rparr>, w1)"
    and same: "\<forall>p. p \<notin> set (dir_chain dir) \<longrightarrow> fs w1 p = fs w p"
    by auto
  have nostat: "\<not> Stat w1 (Join e [dir, name, version])"
    using same fresh by (simp add: Stat_def)
  obtain r w2 where ip: "InstallPackage e \<lparr>cacheDir = dir\<rparr> w1 (TrimPrefix S ''npm:'') = (r, w2)"
    by (cases "InstallPackage e \<lparr>cacheDir = dir\<rparr> w1 (TrimPrefix S ''npm:'')")
  have r: "r = Inl (Sentinel ErrPackageNotFound)"
    using inst [OF nostat] ip by simp
  have res: "loadNPMModule e w S =
      ((None, Some (Wrap (Sentinel ErrPackageInstall) (error_text e (Sentinel ErrPackageNotFound)))), w2)"
    using pm ip r by (simp add: loadNPMModule_def Let_def)
  have d: "dispatch e w (PackageType (ValidateURL e S)) S =
      Some ((None, Some (Wrap (Sentinel ErrPackageInstall) (error_text e (Sentinel ErrPackageNotFound)))), w2)"
    using npm res by simp
  show ?thesis
    using inst LoadModule_failure [OF valid miss d] by simp
qed

section \<open>Concrete runs\<close>

text \<open>The classifier of the spec accepts every \<^verbatim>\<open>jsr:\<close> specifier, whatever follows the
  prefix.\<close>

lemma classify_jsr:
  "PackageType (classify (''jsr:'' @ name)) = TypeJSR \<and> IsValid (classify (''jsr:'' @ name))"
  by (simp add: classify_def HasPrefix_def)

lemmas example_defs =
  example_env_def example_world_def example_http_def classify_def HasPrefix_def TrimPrefix_def
  NewModuleLoader_def join_paths_def abs_path_def Clean_def Split_def

lemmas loader_defs =
  LoadModule_def getFromCache_def loadLocalModule_def loadCDNModule_def loadNPMModule_def
  loadJSRModule_def NewNPMPackageManager_def InstallPackage_def name_version_def
  cachePath_of_def registryURL_of_def ReadFile_def MkdirAll_def dir_chain_def WriteFile_def
  HttpGet_def Stat_def record_event_def Let_def

lemma example_load_local:
  "LoadModule example_env NewModuleLoader example_world ''foo.js'' =
     ((Some \<lparr>URL = ''foo.js'', Content = ''export const x = 1'', Type = TypeLocal\<rparr>, None),
      [''foo.js'' \<mapsto> Some \<lparr>URL = ''foo.js'', Content = ''export const x = 1'', Type = TypeLocal\<rparr>],
      \<lparr>fs = [''/work/foo.js'' \<mapsto> File ''export const x = 1''],
       log = [EvResolve TypeLocal ''foo.js'', EvReadFile ''/work/foo.js'']\<rparr>)"
  by (simp add: example_defs loader_defs)


lemma example_load_cdn_after_local:
  "LoadModule example_env
      [''foo.js'' \<mapsto> Some \<lparr>URL = ''foo.js'', Content = ''export const x = 1'', Type = TypeLocal\<rparr>]
      example_world ''https://cdn.example.com/mod.js'' =
     ((Some \<lparr>URL = ''https://cdn.example.com/mod.js'', Content = ''export default 1'', Type = TypeCDN\<rparr>, None),
      [''foo.js'' \<mapsto> Some \<lparr>URL = ''foo.js'', Content = ''export const x = 1'', Type = TypeLocal\<rparr>,
       ''https://cdn.example.com/mod.js'' \<mapsto>
          Some \<lparr>URL = ''https://cdn.example.com/mod.js'', Content = ''export default 1'', Type = TypeCDN\<rparr>],
      \<lparr>fs = [''/work/foo.js'' \<mapsto> File ''export const x = 1''],
       log = [EvResolve TypeCDN ''https://cdn.example.com/mod.js'',
              EvHttpGet ''https://cdn.example.com/mod.js'']\<rparr>)"
  by (simp add: example_defs loader_defs)

lemma example_install:
  "InstallPackage example_env \<lparr>cacheDir = ''/home/u/.edon/npm-cache''\<rparr> example_world ''left-pad@1.3.0'' =
     (Inr ''/home/u/.edon/npm-cache/left-pad/1.3.0'',
      \<lparr>fs = [''/work/foo.js'' \<mapsto> File ''export const x = 1'',
             ''/home'' \<mapsto> Dir,
             ''/home/u'' \<mapsto> Dir,
             ''/home/u/.edon'' \<mapsto> Dir,
             ''/home/u/.edon/npm-cache'' \<mapsto> Dir,
             ''/home/u/.edon/npm-cache/left-pad'' \<mapsto> Dir,
             ''/home/u/.edon/npm-cache/left-pad/1.3.0'' \<mapsto> Dir,
             ''/home/u/.edon/npm-cache/left-pad/1.3.0/index.js'' \<mapsto>
                File ''// TODO: Implement package content''],
       log = [EvHttpGet ''https://registry.npmjs.org/left-pad/1.3.0'',
              EvMkdirAll ''/home/u/.edon/npm-cache/left-pad/1.3.0'',
              EvWriteFile ''/home/u/.edon/npm-cache/left-pad/1.3.0/index.js'']\<rparr>)"
  by (simp add: example_defs loader_defs)

text \<open>The package manager on the example disk: the cache root and its parents are made.\<close>

lemma example_manager:
  "NewNPMPackageManager example_env (record_event (EvResolve TypeNPM u) example_world) =
     (Inr \<lparr>cacheDir = ''/home/u/.edon/npm-cache''\<rparr>,
      \<lparr>fs = [''/work/foo.js'' \<mapsto> File ''export const x = 1'',
             ''/home'' \<mapsto> Dir,
             ''/home/u'' \<mapsto> Dir,
             ''/home/u/.edon'' \<mapsto> Dir,
             ''/home/u/.edon/npm-cache'' \<mapsto> Dir],
       log = [EvResolve TypeNPM u, EvMkdirAll ''/home/u/.edon/npm-cache'']\<rparr>)"
  by (simp add: example_defs loader_defs)

lemma example_install_scoped:
  "InstallPackage example_env \<lparr>cacheDir = ''/home/u/.edon/npm-cache''\<rparr> example_world
      ''@scope/name@1.0.0'' =
     (Inl (Sentinel ErrPackageNotFound),
      \<lparr>fs = [''/work/foo.js'' \<mapsto> File ''export const x = 1''],
       log = [EvHttpGet ''https://registry.npmjs.org//scope/name'']\<rparr>)"
  by (simp add: example_defs loader_defs)



text \<open>C1 at a local file: the second load is answered from the cache.\<close>

theorem load_twice_cache_hit_witness:
  "snd (fst (LoadModule example_env NewModuleLoader example_world ''foo.js'')) = None \<and>
   IsValid (ValidateURL example_env ''foo.js'') \<and>
   fst (fst (LoadModule example_env NewModuleLoader example_world ''foo.js'')) =
     Some \<lparr>URL = ''foo.js'', Content = ''export const x = 1'', Type = TypeLocal\<rparr> \<and>
   fst (snd (LoadModule example_env NewModuleLoader example_world ''foo.js'')) ''foo.js'' =
     Some (Some \<lparr>URL = ''foo.js'', Content = ''export const x = 1'', Type = TypeLocal\<rparr>) \<and>
   LoadModule example_env
     (fst (snd (LoadModule example_env NewModuleLoader example_world ''foo.js'')))
     (snd (snd (LoadModule example_env NewModuleLoader example_world ''foo.js''))) ''foo.js'' =
   LoadModule example_env NewModuleLoader example_world ''foo.js''"
proof -
  have valid: "IsValid (ValidateURL example_env ''foo.js'')"
    by (simp add: example_defs)
  show ?thesis
    using load_twice_cache_hit [OF example_load_local] example_load_local valid by simp
qed


text \<open>C8 at \<^verbatim>\<open>jsr:@std/path\<close>.\<close>

theorem jsr_never_loads_witness:
  "cache_inv example_env NewModuleLoader \<and>
   PackageType (ValidateURL example_env ''jsr:@std/path'') = TypeJSR \<and>
   IsValid (ValidateURL example_env ''jsr:@std/path'') \<and>
   fst (LoadModule example_env NewModuleLoader example_world ''jsr:@std/path'') =
     (None, Some (Sentinel ErrJSRNotImplemented))"
proof -
  have t: "PackageType (ValidateURL example_env ''jsr:@std/path'') = TypeJSR"
    using classify_jsr [of "''@std/path''"] by (simp add: example_env_def)
  have v: "IsValid (ValidateURL example_env ''jsr:@std/path'')"
    using classify_jsr [of "''@std/path''"] by (simp add: example_env_def)
  show ?thesis
    using jsr_never_loads [OF cache_inv_empty t, of example_world] t v cache_inv_empty by simp
qed

text \<open>C10 at a local file and then a CDN module: both caches satisfy the invariant, and the
  second load keeps the entry of the first.\<close>

theorem cache_invariant_witness:
  "cache_inv example_env
     [''foo.js'' \<mapsto> Some \<lparr>URL = ''foo.js'', Content = ''export const x = 1'', Type = TypeLocal\<rparr>] \<and>
   cache_inv example_env
     [''foo.js'' \<mapsto> Some \<lparr>URL = ''foo.js'', Content = ''export const x = 1'', Type = TypeLocal\<rparr>,
      ''https://cdn.example.com/mod.js'' \<mapsto>
         Some \<lparr>URL = ''https://cdn.example.com/mod.js'', Content = ''export default 1'', Type = TypeCDN\<rparr>] \<and>
   fst (snd (LoadModule example_env
      [''foo.js'' \<mapsto> Some \<lparr>URL = ''foo.js'', Content = ''export const x = 1'', Type = TypeLocal\<rparr>]
      example_world ''https://cdn.example.com/mod.js'')) ''foo.js'' =
     Some (Some \<lparr>URL = ''foo.js'', Content = ''export const x = 1'', Type = TypeLocal\<rparr>)"
proof -
  have one: "cache_inv example_env
     [''foo.js'' \<mapsto> Some \<lparr>URL = ''foo.js'', Content = ''export const x = 1'', Type = TypeLocal\<rparr>]"
    using cache_invariant [of example_env NewModuleLoader example_world "''foo.js''"]
      example_load_local by simp
  show ?thesis
    using one cache_invariant [of example_env
        "[''foo.js'' \<mapsto> Some \<lparr>URL = ''foo.js'', Content = ''export const x = 1'', Type = TypeLocal\<rparr>]"
        example_world "''https://cdn.example.com/mod.js''"]
      example_load_cdn_after_local
    by simp
qed

text \<open>C7 at \<^verbatim>\<open>left-pad@1.3.0\<close>: the first install asks the registry once and makes the
  directory, the second changes nothing.\<close>

theorem InstallPackage_cached_witness:
  "fst (InstallPackage example_env \<lparr>cacheDir = ''/home/u/.edon/npm-cache''\<rparr> example_world ''left-pad@1.3.0'') =
     Inr ''/home/u/.edon/npm-cache/left-pad/1.3.0'' \<and>
   Stat (snd (InstallPackage example_env \<lparr>cacheDir = ''/home/u/.edon/npm-cache''\<rparr> example_world ''left-pad@1.3.0''))
     ''/home/u/.edon/npm-cache/left-pad/1.3.0'' \<and>
   InstallPackage example_env \<lparr>cacheDir = ''/home/u/.edon/npm-cache''\<rparr>
     (snd (InstallPackage example_env \<lparr>cacheDir = ''/home/u/.edon/npm-cache''\<rparr> example_world ''left-pad@1.3.0''))
     ''left-pad@1.3.0'' =
   InstallPackage example_env \<lparr>cacheDir = ''/home/u/.edon/npm-cache''\<rparr> example_world ''left-pad@1.3.0'' \<and>
   registry_requests (snd (InstallPackage example_env \<lparr>cacheDir = ''/home/u/.edon/npm-cache''\<rparr> example_world ''left-pad@1.3.0''))
     \<le> Suc (registry_requests example_world)"
proof -
  have st: "Stat (snd (InstallPackage example_env \<lparr>cacheDir = ''/home/u/.edon/npm-cache''\<rparr>
        example_world ''left-pad@1.3.0'')) ''/home/u/.edon/npm-cache/left-pad/1.3.0''"
    by (simp add: example_install Stat_def)
  show ?thesis
    using InstallPackage_cached [of example_world example_env "\<lparr>cacheDir = ''/home/u/.edon/npm-cache''\<rparr>"
        "''left-pad@1.3.0''" "''/home/u/.edon/npm-cache/left-pad/1.3.0''"
        "snd (InstallPackage example_env \<lparr>cacheDir = ''/home/u/.edon/npm-cache''\<rparr> example_world ''left-pad@1.3.0'')"]
      example_install st
    by simp
qed

text \<open>
  C3. A CDN specifier whose server answers 404 with the body \<^verbatim>\<open>Not Found\<close>: the CDN
  resolver returns that body as the content of a module, with no error, and \<^verbatim>\<open>LoadModule\<close>
  returns the same module. The claim asks for a \<^verbatim>\<open>ModuleNotFound\<close> error here.
\<close>

theorem cdn_404_body_is_returned:
  "http_do example_env ''https://cdn.example.com/missing.js'' = Response 404 (Inr ''Not Found'') \<and>
   fst (loadCDNModule example_env example_world ''https://cdn.example.com/missing.js'') =
     (Some \<lparr>URL = ''https://cdn.example.com/missing.js'', Content = ''Not Found'', Type = TypeCDN\<rparr>, None) \<and>
   fst (LoadModule example_env NewModuleLoader example_world ''https://cdn.example.com/missing.js'') =
     (Some \<lparr>URL = ''https://cdn.example.com/missing.js'', Content = ''Not Found'', Type = TypeCDN\<rparr>, None)"
  by (simp add: example_defs loader_defs)

text \<open>C4 as stated fails: for a package the registry answers with 404, the error that
  \<^verbatim>\<open>LoadModule\<close> returns is of kind \<^verbatim>\<open>ErrPackageInstall\<close>, not \<^verbatim>\<open>ErrPackageNotFound\<close>.\<close>

theorem npm_registry_failure_kind_counterexample:
  "http_do example_env (registryURL_of ''no-such-package'' ''latest'') = Response 404 (Inr ''Not Found'') \<and>
   fst (LoadModule example_env NewModuleLoader example_world ''npm:no-such-package'') =
     (None, Some (Wrap (Sentinel ErrPackageInstall) ''package not found'')) \<and>
   kind_of (Wrap (Sentinel ErrPackageInstall) ''package not found'') \<noteq> ErrPackageNotFound"
  by (simp add: example_defs loader_defs)

text \<open>C4 as amended, at the same package.\<close>

theorem npm_registry_failure_witness:
  "IsValid (ValidateURL example_env ''npm:no-such-package'') \<and>
   PackageType (ValidateURL example_env ''npm:no-such-package'') = TypeNPM \<and>
   getFromCache NewModuleLoader ''npm:no-such-package'' = None \<and>
   name_version (TrimPrefix ''npm:no-such-package'' ''npm:'') = (''no-such-package'', ''latest'') \<and>
   dir_chain ''/home/u/.edon/npm-cache'' =
     [''/home'', ''/home/u'', ''/home/u/.edon'', ''/home/u/.edon/npm-cache''] \<and>
   http_do example_env ''https://registry.npmjs.org/no-such-package/latest'' =
     Response 404 (Inr ''Not Found'') \<and>
   fst (InstallPackage example_env \<lparr>cacheDir = ''/home/u/.edon/npm-cache''\<rparr> example_world
          (TrimPrefix ''npm:no-such-package'' ''npm:'')) = Inl (Sentinel ErrPackageNotFound) \<and>
   fst (LoadModule example_env NewModuleLoader example_world ''npm:no-such-package'') =
     (None, Some (Wrap (Sentinel ErrPackageInstall)
        (error_text example_env (Sentinel ErrPackageNotFound)))) \<and>
   fst (snd (LoadModule example_env NewModuleLoader example_world ''npm:no-such-package'')) = NewModuleLoader"
proof -
  have valid: "IsValid (ValidateURL example_env ''npm:no-such-package'')"
    by (simp add: example_defs)
  have npm: "PackageType (ValidateURL example_env ''npm:no-such-package'') = TypeNPM"
    by (simp add: example_defs)
  have miss: "getFromCache NewModuleLoader ''npm:no-such-package'' = None"
    by (simp add: getFromCache_def NewModuleLoader_def)
  have home: "UserHomeDir example_env = Inr ''/home/u''"
    by (simp add: example_defs)
  have dir: "''/home/u/.edon/npm-cache'' = Join example_env [''/home/u'', ''.edon'', ''npm-cache'']"
    by (simp add: example_defs)
  have chain: "dir_chain ''/home/u/.edon/npm-cache'' =
      [''/home'', ''/home/u'', ''/home/u/.edon'', ''/home/u/.edon/npm-cache'']"
    by (simp add: dir_chain_def)
  have mk: "\<forall>q\<in>set (dir_chain ''/home/u/.edon/npm-cache'').
      fs example_world q = Some Dir \<or> (fs example_world q = None \<and> mkdir_error example_env q = None)"
    by (simp add: chain example_defs)
  have nv: "name_version (TrimPrefix ''npm:no-such-package'' ''npm:'') = (''no-such-package'', ''latest'')"
    by (simp add: TrimPrefix_def name_version_def Split_def)
  have fresh: "fs example_world (Join example_env [''/home/u/.edon/npm-cache'', ''no-such-package'', ''latest'']) = None"
    "Join example_env [''/home/u/.edon/npm-cache'', ''no-such-package'', ''latest'']
       \<notin> set (dir_chain ''/home/u/.edon/npm-cache'')"
    by (simp_all add: chain example_defs)
  have http: "http_do example_env (''https://registry.npmjs.org/'' @ ''no-such-package'' @ ''/'' @ ''latest'')
      = Response 404 (Inr ''Not Found'')"
    by (simp add: example_defs)
  have status: "(404::int) \<noteq> 200" by simp
  have nostat: "\<not> Stat example_world (Join example_env [''/home/u/.edon/npm-cache'', ''no-such-package'', ''latest''])"
    using fresh(1) by (simp add: Stat_def)
  show ?thesis
    using npm_registry_failure [OF valid npm miss home dir mk nv fresh http status]
      valid npm miss nv http nostat chain
    by simp
qed

text \<open>C6 at \<^verbatim>\<open>npm:left-pad@1.3.0\<close>: once the package manager is there, the install asks the
  registry for \<^verbatim>\<open>left-pad\<close> and \<^verbatim>\<open>1.3.0\<close>, and the resolver adds the read of the entry file
  in the directory of that name and version.\<close>

theorem npm_specifier_parsing_witness:
  "CHR ''@'' \<notin> set ''left-pad'' \<and> CHR ''@'' \<notin> set ''1.3.0'' \<and>
   name_version (TrimPrefix ''npm:left-pad@1.3.0'' ''npm:'') = (''left-pad'', ''1.3.0'') \<and>
   fst (NewNPMPackageManager example_env
          (record_event (EvResolve TypeNPM ''npm:left-pad@1.3.0'') example_world)) =
     Inr \<lparr>cacheDir = ''/home/u/.edon/npm-cache''\<rparr> \<and>
   \<not> Stat (snd (NewNPMPackageManager example_env
                 (record_event (EvResolve TypeNPM ''npm:left-pad@1.3.0'') example_world)))
        ''/home/u/.edon/npm-cache/left-pad/1.3.0'' \<and>
   (\<exists>evs. log (snd (InstallPackage example_env \<lparr>cacheDir = ''/home/u/.edon/npm-cache''\<rparr>
                     (snd (NewNPMPackageManager example_env
                        (record_event (EvResolve TypeNPM ''npm:left-pad@1.3.0'') example_world)))
                     ''left-pad@1.3.0'')) =
       [EvResolve TypeNPM ''npm:left-pad@1.3.0'', EvMkdirAll ''/home/u/.edon/npm-cache'',
        EvHttpGet ''https://registry.npmjs.org/left-pad/1.3.0''] @ evs) \<and>
   (\<exists>evs. log (snd (loadNPMModule example_env example_world ''npm:left-pad@1.3.0'')) =
       log (snd (InstallPackage example_env \<lparr>cacheDir = ''/home/u/.edon/npm-cache''\<rparr>
                     (snd (NewNPMPackageManager example_env
                        (record_event (EvResolve TypeNPM ''npm:left-pad@1.3.0'') example_world)))
                     ''left-pad@1.3.0'')) @ evs \<and>
       (evs = [] \<or> evs = [EvReadFile ''/home/u/.edon/npm-cache/left-pad/1.3.0/index.js'']))"
proof -
  let ?pm = "\<lparr>cacheDir = ''/home/u/.edon/npm-cache''\<rparr>"
  let ?w = "snd (NewNPMPackageManager example_env
                 (record_event (EvResolve TypeNPM ''npm:left-pad@1.3.0'') example_world))"
  have n: "CHR ''@'' \<notin> set ''left-pad''" and v: "CHR ''@'' \<notin> set ''1.3.0''"
    by simp_all
  have pm: "NewNPMPackageManager example_env
      (record_event (EvResolve TypeNPM ''npm:left-pad@1.3.0'') example_world) = (Inr ?pm, ?w)"
    by (simp add: example_manager)
  have path: "Join example_env [cacheDir ?pm, ''left-pad'', ''1.3.0''] =
      ''/home/u/.edon/npm-cache/left-pad/1.3.0''"
    by (simp add: example_defs)
  have entry: "Join example_env [''/home/u/.edon/npm-cache/left-pad/1.3.0'', ''index.js''] =
      ''/home/u/.edon/npm-cache/left-pad/1.3.0/index.js''"
    by (simp add: example_defs)
  have nostat: "\<not> Stat ?w ''/home/u/.edon/npm-cache/left-pad/1.3.0''"
    by (simp add: example_manager Stat_def)
  have logw: "log ?w = [EvResolve TypeNPM ''npm:left-pad@1.3.0'', EvMkdirAll ''/home/u/.edon/npm-cache'']"
    by (simp add: example_manager)
  have trim: "TrimPrefix ''npm:left-pad@1.3.0'' ''npm:'' = ''left-pad@1.3.0''"
    by (simp add: TrimPrefix_def)
  note all = npm_specifier_parsing [OF n v, where e = example_env and pm = ?pm and w = ?w
      and ?w0.0 = example_world]
  then have nv: "name_version (TrimPrefix ''npm:left-pad@1.3.0'' ''npm:'') = (''left-pad'', ''1.3.0'')"
    by simp
  from all have inst: "\<forall>u ver. (u = ''npm:left-pad@1.3.0'' \<and> ver = ''1.3.0'') \<or>
        (u = ''npm:left-pad'' \<and> ver = ''latest'') \<longrightarrow>
      (\<not> Stat ?w (Join example_env [cacheDir ?pm, ''left-pad'', ver]) \<longrightarrow>
         (\<exists>evs. log (snd (InstallPackage example_env ?pm ?w (TrimPrefix u ''npm:''))) =
              log ?w @ EvHttpGet (''https://registry.npmjs.org/'' @ ''left-pad'' @ ''/'' @ ver) # evs)) \<and>
      (NewNPMPackageManager example_env (record_event (EvResolve TypeNPM u) example_world) = (Inr ?pm, ?w) \<longrightarrow>
         (\<exists>evs. log (snd (loadNPMModule example_env example_world u)) =
              log (snd (InstallPackage example_env ?pm ?w (TrimPrefix u ''npm:''))) @ evs \<and>
            (evs = [] \<or>
             evs = [EvReadFile (Join example_env [Join example_env [cacheDir ?pm, ''left-pad'', ver], ''index.js''])])))"
    by simp
  from inst have one:
      "(\<not> Stat ?w (Join example_env [cacheDir ?pm, ''left-pad'', ''1.3.0'']) \<longrightarrow>
         (\<exists>evs. log (snd (InstallPackage example_env ?pm ?w (TrimPrefix ''npm:left-pad@1.3.0'' ''npm:''))) =
              log ?w @ EvHttpGet (''https://registry.npmjs.org/'' @ ''left-pad'' @ ''/'' @ ''1.3.0'') # evs)) \<and>
      (NewNPMPackageManager example_env (record_event (EvResolve TypeNPM ''npm:left-pad@1.3.0'') example_world) = (Inr ?pm, ?w) \<longrightarrow>
         (\<exists>evs. log (snd (loadNPMModule example_env example_world ''npm:left-pad@1.3.0'')) =
              log (snd (InstallPackage example_env ?pm ?w (TrimPrefix ''npm:left-pad@1.3.0'' ''npm:''))) @ evs \<and>
            (evs = [] \<or>
             evs = [EvReadFile (Join example_env [Join example_env [cacheDir ?pm, ''left-pad'', ''1.3.0''], ''index.js''])])))"
    by blast
  have req: "\<exists>evs. log (snd (InstallPackage example_env ?pm ?w ''left-pad@1.3.0'')) =
       [EvResolve TypeNPM ''npm:left-pad@1.3.0'', EvMkdirAll ''/home/u/.edon/npm-cache'',
        EvHttpGet ''https://registry.npmjs.org/left-pad/1.3.0''] @ evs"
    using one nostat path trim logw by simp
  have res: "\<exists>evs. log (snd (loadNPMModule example_env example_world ''npm:left-pad@1.3.0'')) =
       log (snd (InstallPackage example_env ?pm ?w ''left-pad@1.3.0'')) @ evs \<and>
       (evs = [] \<or> evs = [EvReadFile ''/home/u/.edon/npm-cache/left-pad/1.3.0/index.js''])"
    using one pm path entry trim by simp
  have fpm: "fst (NewNPMPackageManager example_env
      (record_event (EvResolve TypeNPM ''npm:left-pad@1.3.0'') example_world)) = Inr ?pm"
    by (simp add: example_manager)
  show ?thesis
    by (intro conjI; fact)
qed

text \<open>C9 at \<^verbatim>\<open>@scope/name@1.0.0\<close>: the registry is asked for the empty name and the version
  \<^verbatim>\<open>scope/name\<close>.\<close>

theorem scoped_package_split_witness:
  "takeWhile (\<lambda>c. c \<noteq> CHR ''@'') ''scope/name@1.0.0'' = ''scope/name'' \<and>
   \<not> Stat example_world
        (Join example_env [cacheDir \<lparr>cacheDir = ''/home/u/.edon/npm-cache''\<rparr>, [], ''scope/name'']) \<and>
   (\<exists>evs. log (snd (InstallPackage example_env \<lparr>cacheDir = ''/home/u/.edon/npm-cache''\<rparr>
                      example_world ''@scope/name@1.0.0'')) =
       log example_world @ EvHttpGet ''https://registry.npmjs.org//scope/name'' # evs) \<and>
   InstallPackage example_env \<lparr>cacheDir = ''/home/u/.edon/npm-cache''\<rparr> example_world
      ''@scope/name@1.0.0'' =
     (Inl (Sentinel ErrPackageNotFound),
      \<lparr>fs = [''/work/foo.js'' \<mapsto> File ''export const x = 1''],
       log = [EvHttpGet ''https://registry.npmjs.org//scope/name'']\<rparr>)"
proof -
  have tw: "takeWhile (\<lambda>c. c \<noteq> CHR ''@'') ''scope/name@1.0.0'' = ''scope/name''"
    by simp
  have nostat: "\<not> Stat example_world
      (Join example_env [cacheDir \<lparr>cacheDir = ''/home/u/.edon/npm-cache''\<rparr>, [], ''scope/name''])"
    by (simp add: Stat_def example_defs)
  have "\<exists>evs. log (snd (InstallPackage example_env \<lparr>cacheDir = ''/home/u/.edon/npm-cache''\<rparr>
                      example_world ''@scope/name@1.0.0'')) =
       log example_world @ EvHttpGet ''https://registry.npmjs.org//scope/name'' # evs"
    using scoped_package_split [of "''scope/name@1.0.0''" example_env
        "\<lparr>cacheDir = ''/home/u/.edon/npm-cache''\<rparr>" example_world] nostat tw
    by auto
  then show ?thesis using tw nostat example_install_scoped by simp
qed



end
